theory Spec2Isabelle
  imports Complex_Main "HOL-Library.Sublist"
begin

text \<open>
  AgriBot is a Telegram assistant for farmers. This theory embeds the parts of it that
  decide how a message is classified and answered, how the scheduled jobs notify users
  and trim the stored data, how a Telegram login is handled, and how requests are
  rate-limited; and it proves what these parts do. The definitions come first, module by
  module, each function under the name it has in the sources; the proofs follow.
\<close>

section \<open>Strings\<close>

text \<open>
  A JavaScript string is modelled as a \<^typ>\<open>string\<close>: a list of 8-bit characters.
  Printable ASCII is written literally; every other character of a source literal (the
  emoji and the bullet signs of the reply templates, the line feeds) is written as the
  bytes of its UTF-8 encoding. \<open>String.prototype.toLowerCase\<close> is modelled on the
  ASCII letters \<open>A\<close> to \<open>Z\<close>; all other bytes are left as they are. Every keyword and
  vocabulary word of the program is lower-case ASCII.
\<close>

definition toLowerChar :: "char \<Rightarrow> char" where
  "toLowerChar c =
     (case map_of (zip ''ABCDEFGHIJKLMNOPQRSTUVWXYZ'' ''abcdefghijklmnopqrstuvwxyz'') c of
        Some l \<Rightarrow> l
      | None \<Rightarrow> c)"

definition toLowerCase :: "string \<Rightarrow> string" where
  "toLowerCase s = map toLowerChar s"

text \<open>\<open>String.prototype.startsWith\<close> and \<open>String.prototype.includes\<close>.\<close>

fun startsWith :: "string \<Rightarrow> string \<Rightarrow> bool" where
  "startsWith t [] = True"
| "startsWith [] (k # ks) = False"
| "startsWith (c # t) (k # ks) = (c = k \<and> startsWith t ks)"

fun str_includes :: "string \<Rightarrow> string \<Rightarrow> bool" where
  "str_includes [] k = (k = [])"
| "str_includes (c # t) k = (startsWith (c # t) k \<or> str_includes t k)"

text \<open>\<open>Array.prototype.join\<close> on an array of strings.\<close>

fun join :: "string list \<Rightarrow> string \<Rightarrow> string" where
  "join [] sep = []"
| "join [x] sep = x"
| "join (x # y # ys) sep = x @ sep @ join (y # ys) sep"

section \<open>AIService: intents and entities (src/services/aiService.js)\<close>

datatype intent =
  Greeting | Weather | Crops | Market | Pest | Irrigation | Fertilizer | News | Help | General

text \<open>
  \<open>this.intents\<close>: an object literal with string keys, which \<open>Object.entries\<close>
  enumerates in the order of the literal; hence an association list.
\<close>

definition intents :: "(intent \<times> string list) list" where
  "intents =
    [(Greeting, [''hello'', ''hi'', ''hey'', ''good morning'', ''good evening'']),
     (Weather, [''weather'', ''temperature'', ''rain'', ''sunny'', ''cloudy'', ''forecast'']),
     (Crops, [''crop'', ''plant'', ''grow'', ''seed'', ''harvest'', ''farming'']),
     (Market, [''price'', ''market'', ''sell'', ''buy'', ''cost'', ''rate'']),
     (Pest, [''pest'', ''insect'', ''bug'', ''disease'', ''infection'', ''treatment'']),
     (Irrigation, [''water'', ''irrigation'', ''watering'', ''drought'', ''moisture'']),
     (Fertilizer, [''fertilizer'', ''nutrient'', ''manure'', ''compost'', ''nitrogen'']),
     (News, [''news'', ''latest'', ''headlines'', ''updates'', ''article'']),
     (Help, [''help'', ''assist'', ''support'', ''guide'', ''how to''])]"

text \<open>
  \<open>detectIntent\<close>: the \<open>for ... of Object.entries(this.intents)\<close> loop, returning at the
  first entry one of whose keywords the lower-cased text includes, and \<open>'general'\<close> after
  the loop.
\<close>

fun detectIntent_loop :: "(intent \<times> string list) list \<Rightarrow> string \<Rightarrow> intent" where
  "detectIntent_loop [] lowercaseText = General"
| "detectIntent_loop ((intent, keywords) # rest) lowercaseText =
     (if list_ex (\<lambda>keyword. str_includes lowercaseText keyword) keywords then intent
      else detectIntent_loop rest lowercaseText)"

definition detectIntent :: "string \<Rightarrow> intent" where
  "detectIntent text = (let lowercaseText = toLowerCase text in detectIntent_loop intents lowercaseText)"

record entity =
  "type" :: string
  "value" :: string

definition crops :: "string list" where
  "crops = [''wheat'', ''corn'', ''rice'', ''tomato'', ''potato'', ''soybean'']"

definition locations :: "string list" where
  "locations = [''kenya'', ''nairobi'', ''mombasa'', ''kisumu'', ''nakuru'']"

text \<open>
  The two \<open>forEach\<close> loops of \<open>extractEntities\<close>: each pushes one entity of the given
  type for every vocabulary word the lower-cased text includes.
\<close>

fun forEach_push :: "string \<Rightarrow> string list \<Rightarrow> string \<Rightarrow> entity list \<Rightarrow> entity list" where
  "forEach_push ty [] lowercaseText entities = entities"
| "forEach_push ty (w # ws) lowercaseText entities =
     forEach_push ty ws lowercaseText
       (if str_includes lowercaseText w then entities @ [\<lparr>type = ty, value = w\<rparr>] else entities)"

definition extractEntities :: "string \<Rightarrow> entity list" where
  "extractEntities text =
     (let entities = [];
          lowercaseText = toLowerCase text;
          entities = forEach_push ''crop'' crops lowercaseText entities;
          entities = forEach_push ''location'' locations lowercaseText entities
      in entities)"

text \<open>
  The vocabulary of the classifier, for stating its properties: the intents in the order
  of the table, and whether some keyword of an intent occurs in the lower-cased text.
\<close>

definition declaredOrder :: "intent list" where
  "declaredOrder = map fst intents"

definition triggers :: "intent \<Rightarrow> string \<Rightarrow> bool" where
  "triggers i text =
     (case map_of intents i of
        None \<Rightarrow> False
      | Some keywords \<Rightarrow> (\<exists>keyword \<in> set keywords. str_includes (toLowerCase text) keyword))"

section \<open>The User document (models/User.js)\<close>

text \<open>
  The fields of the Mongoose schema that the functions below read or write. Dates are
  milliseconds since the epoch. The functions work on hydrated documents (the queries
  are not \<open>lean\<close>), on which a nested path of the schema, such as \<open>profile\<close>,
  \<open>profile.location\<close> and \<open>profile.location.coordinates\<close>, is an object whether or
  not anything is stored under it: so these are records, and what a document may lack
  is a leaf, an \<open>option\<close>. \<open>agriculturalProfile\<close> is not a path of the schema;
  \<open>AIService\<close> reads it with optional chaining, so it is optional here. Its
  \<open>location\<close> is written \<open>location'\<close>, the name \<open>location\<close> being taken by the
  profile.
\<close>

record coordinates =
  latitude :: "real option"
  longitude :: "real option"

record place =
  city :: "string option"
  coordinates :: coordinates

record profile =
  cropTypes :: "string list"
  location :: place

record notificationSettings =
  weather :: bool
  marketPrices :: bool

record botData =
  lastInteraction :: int
  notificationSettings :: notificationSettings

record analytics =
  lastActiveTime :: int

record permissions =
  isBanned :: bool
  banReason :: "string option"

record agriculturalProfile =
  location' :: "string option"
  cropsOfInterest :: "string list option"

record user =
  telegramId :: nat
  username :: "string option"
  firstName :: string
  lastName :: "string option"
  profile :: profile
  botData :: botData
  analytics :: analytics
  permissions :: permissions
  agriculturalProfile :: "agriculturalProfile option"

text \<open>A thrown JavaScript \<open>Error\<close>, with its message.\<close>

datatype error = Error string

section \<open>AIService: response generation (src/services/aiService.js)\<close>

text \<open>
  A button of an inline keyboard is the pair of its \<open>text\<close> and its \<open>callback_data\<close>;
  a keyboard is the list of the rows of its \<open>inline_keyboard\<close>. A response without a
  \<open>keyboard\<close> property has \<open>None\<close>.
\<close>

type_synonym button = "string \<times> string"

type_synonym keyboard = "button list list"

record response =
  "text" :: string
  confidence :: real
  keyboard :: "keyboard option"

record cropInfo =
  plantingTime :: string
  harvestTime :: string
  waterRequirement :: string
  commonDiseases :: "string list"
  tips :: string

definition cropDatabase :: "(string \<times> cropInfo) list" where
  "cropDatabase =
     [(''wheat'',
       \<lparr>plantingTime = ''October-December'', harvestTime = ''March-May'',
        waterRequirement = ''Moderate'',
        commonDiseases = [''Rust'', ''Smut'', ''Blight''],
        tips = ''Plant in well-drained soil with pH 6.0-7.5''\<rparr>),
      (''corn'',
       \<lparr>plantingTime = ''April-June'', harvestTime = ''August-October'',
        waterRequirement = ''High'',
        commonDiseases = [''Corn Borer'', ''Leaf Blight''],
        tips = ''Requires warm weather and regular watering''\<rparr>),
      (''rice'',
       \<lparr>plantingTime = ''June-July'', harvestTime = ''October-December'',
        waterRequirement = ''Very High'',
        commonDiseases = [''Blast'', ''Bacterial Blight''],
        tips = ''Grows best in flooded fields''\<rparr>)]"

text \<open>
  The collaborators of the service. \<open>model\<close> stands for
  \<open>this.model.generateContent(prompt)\<close> followed by \<open>result.response\<close> and
  \<open>response.text()\<close>: the generated text, or the error one of the three raised.
  \<open>random\<close> is the value \<open>Math.random()\<close> returns, in \<open>[0, 1)\<close>.
  \<open>newsService\<close> fetches articles from a news API and formats them with the dates of
  the locale; its two functions are taken by what they return or raise.
\<close>

typedecl article

record newsResult =
  success :: bool
  articles :: "article list"
  newsError :: "string option"

record env =
  model :: "string \<Rightarrow> error + string"
  random :: real
  getNewsByCategory :: "string \<Rightarrow> error + newsResult"
  formatNewsForTelegram :: "article list \<Rightarrow> nat \<Rightarrow> error + string"

text \<open>\<open>x || d\<close> on a string that may be undefined: the empty string is falsy too.\<close>

definition or_else :: "string option \<Rightarrow> string \<Rightarrow> string" where
  "or_else x d = (case x of None \<Rightarrow> d | Some s \<Rightarrow> if s = [] then d else s)"

text \<open>\<open>user.agriculturalProfile?.location\<close> and
  \<open>user.agriculturalProfile?.cropsOfInterest?.join(', ')\<close>.\<close>

definition profileLocation :: "user \<Rightarrow> string option" where
  "profileLocation user =
     (case agriculturalProfile user of None \<Rightarrow> None | Some p \<Rightarrow> location' p)"

definition cropsOfInterest_joined :: "user \<Rightarrow> string option" where
  "cropsOfInterest_joined user =
     (case agriculturalProfile user of
        None \<Rightarrow> None
      | Some p \<Rightarrow> (case cropsOfInterest p of None \<Rightarrow> None | Some cs \<Rightarrow> Some (join cs '', '')))"

definition toUpperChar :: "char \<Rightarrow> char" where
  "toUpperChar c =
     (case map_of (zip ''abcdefghijklmnopqrstuvwxyz'' ''ABCDEFGHIJKLMNOPQRSTUVWXYZ'') c of
        Some u \<Rightarrow> u
      | None \<Rightarrow> c)"

definition toUpperCase :: "string \<Rightarrow> string" where
  "toUpperCase s = map toUpperChar s"

definition charAt :: "string \<Rightarrow> nat \<Rightarrow> string" where
  "charAt s i = (if i < length s then [s ! i] else [])"

definition slice :: "string \<Rightarrow> nat \<Rightarrow> string" where
  "slice s n = drop n s"

text \<open>\<open>xs[Math.floor(Math.random() * xs.length)]\<close>.\<close>

definition pick :: "real \<Rightarrow> string list \<Rightarrow> string" where
  "pick r xs = xs ! nat \<lfloor>r * real (length xs)\<rfloor>"

definition generateGreetingResponse :: "env \<Rightarrow> user \<Rightarrow> response" where
  "generateGreetingResponse env user =
     (let greetings =
        [''Hello ''
         @ firstName user
         @ ''! '' @ [CHR 0xF0, CHR 0x9F, CHR 0x8C, CHR 0xB1]
         @ '' How can I help you with your farming today?'',
         ''Hi there! '' @ [CHR 0xF0, CHR 0x9F, CHR 0x9A, CHR 0x9C]
         @ '' What agricultural question do you have for me?'',
         ''Welcome back! '' @ [CHR 0xF0, CHR 0x9F, CHR 0x8C, CHR 0xBE]
         @ '' Ready to grow something amazing together?'']
      in \<lparr>text = pick (random env) greetings,
          confidence = 0.9,
          keyboard = Some
            [[([CHR 0xF0, CHR 0x9F, CHR 0x8C, CHR 0xA4, CHR 0xEF, CHR 0xB8, CHR 0x8F] @ '' Weather'', ''weather''),
                ([CHR 0xF0, CHR 0x9F, CHR 0x8C, CHR 0xB1] @ '' Crops'', ''crops'')],
               [([CHR 0xF0, CHR 0x9F, CHR 0x93, CHR 0x8A] @ '' Market'', ''market''),
                ([CHR 0xF0, CHR 0x9F, CHR 0x92, CHR 0xA1] @ '' Tips'', ''tips'')]]\<rparr>)"

definition generateWeatherResponse :: "entity list \<Rightarrow> user \<Rightarrow> response" where
  "generateWeatherResponse entities user =
     \<lparr>text =
         [CHR 0xF0, CHR 0x9F, CHR 0x8C, CHR 0xA4, CHR 0xEF, CHR 0xB8, CHR 0x8F]
         @ '' Let me get the latest weather information for you! Use /weather ''
         @ ''to get current conditions and forecasts for your location.'',
      confidence = 0.8,
      keyboard = Some
            [[([CHR 0xF0, CHR 0x9F, CHR 0x8C, CHR 0xA6, CHR 0xEF, CHR 0xB8, CHR 0x8F] @ '' Current Weather'', ''current_weather''),
                ([CHR 0xF0, CHR 0x9F, CHR 0x93, CHR 0x85] @ '' Forecast'', ''weather_forecast'')]]\<rparr>"

text \<open>
  The two responses \<open>generateCropResponse\<close> can give without the backend: the fact
  sheet of a crop of \<open>cropDatabase\<close>, and the request to name a crop.
\<close>

definition cropFactSheet :: "entity \<Rightarrow> cropInfo \<Rightarrow> response" where
  "cropFactSheet cropEntity crop =
     \<lparr>text =
         [CHR 0xF0, CHR 0x9F, CHR 0x8C, CHR 0xBE] @ '' *''
         @ toUpperCase (charAt (value cropEntity) 0) @ slice (value cropEntity) 1
         @ '' Information*'' @ [CHR 0x0A, CHR 0x0A]
         @ [CHR 0xF0, CHR 0x9F, CHR 0x8C, CHR 0xB1] @ '' Planting Time: ''
         @ plantingTime crop
         @ [CHR 0x0A]
         @ [CHR 0xF0, CHR 0x9F, CHR 0x8C, CHR 0xBE] @ '' Harvest Time: ''
         @ harvestTime crop
         @ [CHR 0x0A]
         @ [CHR 0xF0, CHR 0x9F, CHR 0x92, CHR 0xA7] @ '' Water Requirement: ''
         @ waterRequirement crop
         @ [CHR 0x0A]
         @ [CHR 0xF0, CHR 0x9F, CHR 0xA6, CHR 0xA0] @ '' Common Diseases: ''
         @ join (commonDiseases crop) '', ''
         @ [CHR 0x0A]
         @ [CHR 0xF0, CHR 0x9F, CHR 0x92, CHR 0xA1] @ '' Tip: ''
         @ tips crop,
      confidence = 0.9,
      keyboard = None\<rparr>"

definition cropStaticFallback :: response where
  "cropStaticFallback =
     \<lparr>text =
         [CHR 0xF0, CHR 0x9F, CHR 0x8C, CHR 0xB1]
         @ '' I'd be happy to help you with crop information! Could you specify ''
         @ ''which crop you're interested in? I have information about wheat, ''
         @ ''corn, rice, and many others.'',
      confidence = 0.7,
      keyboard = Some
            [[([CHR 0xF0, CHR 0x9F, CHR 0x8C, CHR 0xBE] @ '' Wheat'', ''crop_info:wheat''),
                ([CHR 0xF0, CHR 0x9F, CHR 0x8C, CHR 0xBD] @ '' Corn'', ''crop_info:corn'')],
               [([CHR 0xF0, CHR 0x9F, CHR 0x8D, CHR 0x9A] @ '' Rice'', ''crop_info:rice''),
                ([CHR 0xF0, CHR 0x9F, CHR 0xAB, CHR 0x98] @ '' Soybeans'', ''crop_info:soybeans'')]]\<rparr>"

definition cropPrompt :: "string \<Rightarrow> string \<Rightarrow> string \<Rightarrow> string \<Rightarrow> string" where
  "cropPrompt userLocation originalText userCrops specificCrop =
             ''You are an agricultural expert helping a farmer in ''
             @ userLocation
             @ ''. '' @ [CHR 0x0A] @ ''                '' @ [CHR 0x0A] @ ''Question: ''
             @ [CHR 0x22]
             @ originalText
             @ [CHR 0x22, CHR 0x0A] @ ''User grows: ''
             @ userCrops
             @ [CHR 0x0A] @ ''Specific crop: ''
             @ specificCrop
             @ [CHR 0x0A, CHR 0x0A]
             @ ''Provide specific, actionable advice for crop management in Kenya's ''
             @ ''climate. Include:'' @ [CHR 0x0A] @ ''- Planting/growing tips''
             @ [CHR 0x0A] @ ''- Seasonal considerations for Kenya'' @ [CHR 0x0A]
             @ ''- Local farming practices'' @ [CHR 0x0A] @ ''- Practical solutions''
             @ [CHR 0x0A, CHR 0x0A]
             @ ''Keep response under 150 words and use appropriate emojis.''"

text \<open>
  Every generator that calls the backend returns its response together with the list of
  the prompts it handed to \<open>model\<close>, so that the delegation is part of the result.
  An error the backend raises is caught inside the generator (\<open>logger.error\<close> does not
  raise) and never leaves it.
\<close>

definition generateCropResponse ::
    "env \<Rightarrow> entity list \<Rightarrow> string \<Rightarrow> user \<Rightarrow> response \<times> string list" where
  "generateCropResponse env entities originalText user =
     (let cropEntity = find (\<lambda>e. type e = ''crop'') entities;
          fallback =
            (case cropEntity of
               None \<Rightarrow> cropStaticFallback
             | Some e \<Rightarrow>
                 (case map_of cropDatabase (value e) of
                    None \<Rightarrow> cropStaticFallback
                  | Some crop \<Rightarrow> cropFactSheet e crop))
      in if str_includes originalText ''how to'' \<or> str_includes originalText ''when to''
            \<or> str_includes originalText ''best'' \<or> cropEntity \<noteq> None
         then
           (let userLocation = or_else (profileLocation user) ''Kenya'';
                userCrops = or_else (cropsOfInterest_joined user) ''general crops'';
                specificCrop = (case cropEntity of Some e \<Rightarrow> value e | None \<Rightarrow> ''farming'');
                prompt = cropPrompt userLocation originalText userCrops specificCrop
            in case model env prompt of
                 Inr text' \<Rightarrow>
                   (\<lparr>text = text',
                     confidence = 0.9,
                     keyboard = Some
                      [[([CHR 0xF0, CHR 0x9F, CHR 0x8C, CHR 0xA4, CHR 0xEF, CHR 0xB8, CHR 0x8F] @ '' Weather Info'', ''weather_info''),
                        ([CHR 0xF0, CHR 0x9F, CHR 0x93, CHR 0x88] @ '' Market Prices'', ''market_info'')],
                       [([CHR 0xF0, CHR 0x9F, CHR 0x92, CHR 0xA1] @ '' More Tips'', ''farming_tips'')]]\<rparr>,
                    [prompt])
               | Inl error \<Rightarrow> (fallback, [prompt]))
         else (fallback, []))"

definition generateMarketResponse :: "entity list \<Rightarrow> user \<Rightarrow> response" where
  "generateMarketResponse entities user =
     \<lparr>text =
         [CHR 0xF0, CHR 0x9F, CHR 0x93, CHR 0x88]
         @ '' Let me help you with market price information! Use /market ''
         @ ''to get current prices for your crops, or specify which crop ''
         @ ''prices you'd like to know about.'',
      confidence = 0.8,
      keyboard = Some
            [[([CHR 0xF0, CHR 0x9F, CHR 0x8C, CHR 0xBE] @ '' Grain Prices'', ''market_grains''),
                ([CHR 0xF0, CHR 0x9F, CHR 0xA5, CHR 0x95] @ '' Vegetable Prices'', ''market_vegetables'')]]\<rparr>"

definition pestPrompt :: "string \<Rightarrow> string" where
  "pestPrompt originalText =
         ''You are a plant pathology expert helping a farmer in Kenya with ''
         @ ''pest management.'' @ [CHR 0x0A, CHR 0x0A] @ ''Question: '' @ [CHR 0x22]
         @ originalText
         @ [CHR 0x22, CHR 0x0A, CHR 0x0A]
         @ ''Provide practical advice for pest identification and control ''
         @ ''in Kenya. Include:'' @ [CHR 0x0A] @ ''- Common pests in Kenya'' @ [CHR 0x0A]
         @ ''- Organic/sustainable control methods'' @ [CHR 0x0A]
         @ ''- Prevention strategies'' @ [CHR 0x0A] @ ''- When to seek professional help''
         @ [CHR 0x0A, CHR 0x0A] @ ''Keep response under 150 words with emojis.''"

definition pestFallback :: response where
  "pestFallback =
     \<lparr>text =
         [CHR 0xF0, CHR 0x9F, CHR 0x90, CHR 0x9B]
         @ '' I can help you with pest management! For specific pest issues, ''
         @ ''please describe the symptoms you're seeing on your crops, and ''
         @ ''I'll provide targeted advice.'',
      confidence = 0.7,
      keyboard = None\<rparr>"

definition generatePestResponse :: "env \<Rightarrow> entity list \<Rightarrow> string \<Rightarrow> response \<times> string list" where
  "generatePestResponse env entities originalText =
     (let prompt = pestPrompt originalText
      in case model env prompt of
           Inr text' \<Rightarrow> (\<lparr>text = text', confidence = 0.8, keyboard = None\<rparr>, [prompt])
         | Inl error \<Rightarrow> (pestFallback, [prompt]))"

definition irrigationPrompt :: "string \<Rightarrow> string" where
  "irrigationPrompt originalText =
         ''You are an irrigation specialist helping a farmer in Kenya with ''
         @ ''water management.'' @ [CHR 0x0A, CHR 0x0A] @ ''Question: '' @ [CHR 0x22]
         @ originalText
         @ [CHR 0x22, CHR 0x0A, CHR 0x0A]
         @ ''Provide practical irrigation advice for Kenya's climate including:''
         @ [CHR 0x0A] @ ''- Water-efficient techniques'' @ [CHR 0x0A]
         @ ''- Seasonal watering strategies'' @ [CHR 0x0A] @ ''- Drought management''
         @ [CHR 0x0A] @ ''- Local irrigation methods'' @ [CHR 0x0A, CHR 0x0A]
         @ ''Keep response under 150 words with emojis.''"

definition irrigationFallback :: response where
  "irrigationFallback =
     \<lparr>text =
         [CHR 0xF0, CHR 0x9F, CHR 0x92, CHR 0xA7]
         @ '' I can help with irrigation planning! Consider drip irrigation ''
         @ ''for water efficiency, and time watering for early morning to ''
         @ ''reduce evaporation.'',
      confidence = 0.7,
      keyboard = None\<rparr>"

definition generateIrrigationResponse ::
    "env \<Rightarrow> entity list \<Rightarrow> string \<Rightarrow> response \<times> string list" where
  "generateIrrigationResponse env entities originalText =
     (let prompt = irrigationPrompt originalText
      in case model env prompt of
           Inr text' \<Rightarrow> (\<lparr>text = text', confidence = 0.8, keyboard = None\<rparr>, [prompt])
         | Inl error \<Rightarrow> (irrigationFallback, [prompt]))"

definition fertilizerPrompt :: "string \<Rightarrow> string" where
  "fertilizerPrompt originalText =
         ''You are a soil fertility expert helping a farmer in Kenya with ''
         @ ''fertilizer and soil management.'' @ [CHR 0x0A, CHR 0x0A] @ ''Question: ''
         @ [CHR 0x22]
         @ originalText
         @ [CHR 0x22, CHR 0x0A, CHR 0x0A]
         @ ''Provide practical fertilizer advice for Kenya including:'' @ [CHR 0x0A]
         @ ''- Organic vs synthetic options'' @ [CHR 0x0A] @ ''- Local soil conditions''
         @ [CHR 0x0A] @ ''- Nutrient management'' @ [CHR 0x0A]
         @ ''- Cost-effective solutions'' @ [CHR 0x0A, CHR 0x0A]
         @ ''Keep response under 150 words with emojis.''"

definition fertilizerFallback :: response where
  "fertilizerFallback =
     \<lparr>text =
         [CHR 0xF0, CHR 0x9F, CHR 0x8C, CHR 0xB1]
         @ '' For fertilizer advice, consider soil testing first. Organic ''
         @ ''compost and manure work well in Kenya's soils, plus DAP and ''
         @ ''CAN for specific nutrient needs.'',
      confidence = 0.7,
      keyboard = None\<rparr>"

definition generateFertilizerResponse ::
    "env \<Rightarrow> entity list \<Rightarrow> string \<Rightarrow> response \<times> string list" where
  "generateFertilizerResponse env entities originalText =
     (let prompt = fertilizerPrompt originalText
      in case model env prompt of
           Inr text' \<Rightarrow> (\<lparr>text = text', confidence = 0.8, keyboard = None\<rparr>, [prompt])
         | Inl error \<Rightarrow> (fertilizerFallback, [prompt]))"

definition newsCategory :: "string \<Rightarrow> string" where
  "newsCategory originalText =
     (if str_includes originalText ''crop'' \<or> str_includes originalText ''harvest'' then ''crops''
      else if str_includes originalText ''tech'' \<or> str_includes originalText ''innovation''
        then ''technology''
      else if str_includes originalText ''market'' \<or> str_includes originalText ''price''
        then ''market''
      else if str_includes originalText ''weather'' \<or> str_includes originalText ''climate''
        then ''weather''
      else if str_includes originalText ''sustainable'' \<or> str_includes originalText ''organic''
        then ''sustainability''
      else ''general'')"

definition newsCatchResponse :: response where
  "newsCatchResponse =
     \<lparr>text =
             [CHR 0xF0, CHR 0x9F, CHR 0x93, CHR 0xB0]
             @ '' Sorry, I can't fetch news right now, but I'm here to help with ''
             @ ''all your agricultural questions! Ask me about crops, weather, ''
             @ ''markets, or farming techniques.'',
      confidence = 0.5,
      keyboard = Some
                [[([CHR 0xF0, CHR 0x9F, CHR 0x8C, CHR 0xB1] @ '' Crop Advice'', ''crops''),
                    ([CHR 0xF0, CHR 0x9F, CHR 0x8C, CHR 0xA4, CHR 0xEF, CHR 0xB8, CHR 0x8F] @ '' Weather'', ''weather'')],
                   [([CHR 0xF0, CHR 0x9F, CHR 0x93, CHR 0x88] @ '' Market Prices'', ''market''),
                    ([CHR 0xF0, CHR 0x9F, CHR 0x92, CHR 0xA1] @ '' Farming Tips'', ''tips'')]]\<rparr>"

definition generateNewsResponse :: "env \<Rightarrow> entity list \<Rightarrow> string \<Rightarrow> response" where
  "generateNewsResponse env entities originalText =
     (let category = newsCategory originalText
      in case getNewsByCategory env category of
           Inl error \<Rightarrow> newsCatchResponse
         | Inr newsResult \<Rightarrow>
             if success newsResult \<and> length (articles newsResult) > 0 then
               (case formatNewsForTelegram env (articles newsResult) 3 of
                  Inl error \<Rightarrow> newsCatchResponse
                | Inr formattedNews \<Rightarrow>
                    \<lparr>text = formattedNews,
                     confidence = 0.9,
                     keyboard = Some
                      [[([CHR 0xF0, CHR 0x9F, CHR 0x8C, CHR 0xBE] @ '' Crop News'', ''news_crops''),
                        ([CHR 0xF0, CHR 0x9F, CHR 0x92, CHR 0xB0] @ '' Market News'', ''news_market'')],
                       [([CHR 0xF0, CHR 0x9F, CHR 0x94, CHR 0xAC] @ '' Tech News'', ''news_technology''),
                        ([CHR 0xF0, CHR 0x9F, CHR 0x8C, CHR 0xB1] @ '' Sustainability'', ''news_sustainability'')],
                       [([CHR 0xF0, CHR 0x9F, CHR 0x94, CHR 0x84] @ '' Refresh News'', ''news_refresh'')]]\<rparr>)
             else
               \<lparr>text =
                 [CHR 0xF0, CHR 0x9F, CHR 0x93, CHR 0xB0]
                 @ '' I'm having trouble fetching the latest agricultural news right ''
                 @ ''now. ''
                 @ or_else (newsError newsResult) ''Please try again later.''
                 @ [CHR 0x0A, CHR 0x0A] @ ''In the meantime, I can help you with:''
                 @ [CHR 0x0A, CHR 0xE2, CHR 0x80, CHR 0xA2] @ '' Crop advice''
                 @ [CHR 0x0A, CHR 0xE2, CHR 0x80, CHR 0xA2] @ '' Weather information''
                 @ [CHR 0x0A, CHR 0xE2, CHR 0x80, CHR 0xA2] @ '' Market prices''
                 @ [CHR 0x0A, CHR 0xE2, CHR 0x80, CHR 0xA2] @ '' Farming tips'',
                confidence = 0.6,
                keyboard = Some
                      [[([CHR 0xF0, CHR 0x9F, CHR 0x8C, CHR 0xA4, CHR 0xEF, CHR 0xB8, CHR 0x8F] @ '' Weather'', ''weather''),
                        ([CHR 0xF0, CHR 0x9F, CHR 0x93, CHR 0x88] @ '' Market'', ''market'')],
                       [([CHR 0xF0, CHR 0x9F, CHR 0x8C, CHR 0xB1] @ '' Crops'', ''crops''),
                        ([CHR 0xF0, CHR 0x9F, CHR 0x92, CHR 0xA1] @ '' Tips'', ''tips'')]]\<rparr>)"

definition generateHelpResponse :: response where
  "generateHelpResponse =
     \<lparr>text =
         [CHR 0xF0, CHR 0x9F, CHR 0xA4, CHR 0x96] @ '' *AgriBot Help*''
         @ [CHR 0x0A, CHR 0x0A]
         @ ''I'm your intelligent agricultural assistant! I can help with:''
         @ [CHR 0x0A, CHR 0x0A]
         @ [CHR 0xF0, CHR 0x9F, CHR 0x8C, CHR 0xA4, CHR 0xEF, CHR 0xB8, CHR 0x8F]
         @ '' Weather forecasts and alerts'' @ [CHR 0x0A]
         @ [CHR 0xF0, CHR 0x9F, CHR 0x8C, CHR 0xB1] @ '' Crop planting and care advice''
         @ [CHR 0x0A]
         @ [CHR 0xF0, CHR 0x9F, CHR 0x93, CHR 0x88] @ '' Market prices and trends''
         @ [CHR 0x0A]
         @ [CHR 0xF0, CHR 0x9F, CHR 0x90, CHR 0x9B] @ '' Pest and disease management''
         @ [CHR 0x0A]
         @ [CHR 0xF0, CHR 0x9F, CHR 0x92, CHR 0xA7] @ '' Irrigation and water management''
         @ [CHR 0x0A]
         @ [CHR 0xF0, CHR 0x9F, CHR 0x8C, CHR 0xBE] @ '' Fertilizer recommendations''
         @ [CHR 0x0A]
         @ [CHR 0xF0, CHR 0x9F, CHR 0x93, CHR 0xB0] @ '' Latest agricultural news''
         @ [CHR 0x0A, CHR 0x0A]
         @ ''Just ask me anything about farming!'',
      confidence = 1.0,
      keyboard = Some
            [[([CHR 0xF0, CHR 0x9F, CHR 0x8C, CHR 0xA4, CHR 0xEF, CHR 0xB8, CHR 0x8F] @ '' Weather'', ''weather''),
                ([CHR 0xF0, CHR 0x9F, CHR 0x8C, CHR 0xB1] @ '' Crops'', ''crops'')],
               [([CHR 0xF0, CHR 0x9F, CHR 0x93, CHR 0x8A] @ '' Market'', ''market''),
                ([CHR 0xF0, CHR 0x9F, CHR 0x93, CHR 0xB0] @ '' News'', ''news_general'')],
               [([CHR 0xF0, CHR 0x9F, CHR 0x92, CHR 0xA1] @ '' Tips'', ''tips'')]]\<rparr>"

definition generalPrompt :: "string \<Rightarrow> user \<Rightarrow> string" where
  "generalPrompt originalText user =
             ''You are an expert agricultural assistant helping farmers in ''
             @ ''Kenya. '' @ [CHR 0x0A] @ ''            '' @ [CHR 0x0A]
             @ ''User question: '' @ [CHR 0x22]
             @ originalText
             @ [CHR 0x22, CHR 0x0A] @ ''User's crops of interest: ''
             @ or_else (cropsOfInterest_joined user) ''general farming''
             @ [CHR 0x0A] @ ''User's location: ''
             @ or_else (profileLocation user) ''Kenya''
             @ [CHR 0x0A, CHR 0x0A]
             @ ''Provide a helpful, practical response about agriculture. Keep ''
             @ ''it concise (max 200 words) and include specific actionable advice. ''
             @ ''Use emojis appropriately. Focus on:'' @ [CHR 0x0A]
             @ ''- Crop management'' @ [CHR 0x0A] @ ''- Weather considerations''
             @ [CHR 0x0A] @ ''- Best practices'' @ [CHR 0x0A]
             @ ''- Local farming conditions in Kenya'' @ [CHR 0x0A, CHR 0x0A]
             @ ''If the question is not agriculture-related, politely redirect ''
             @ ''to farming topics.''"

definition generateGeneralResponse ::
    "env \<Rightarrow> string \<Rightarrow> entity list \<Rightarrow> user \<Rightarrow> response \<times> string list" where
  "generateGeneralResponse env originalText entities user =
     (let prompt = generalPrompt originalText user
      in case model env prompt of
           Inr text' \<Rightarrow>
             (\<lparr>text = text',
               confidence = 0.8,
               keyboard = Some
                  [[([CHR 0xF0, CHR 0x9F, CHR 0x8C, CHR 0xA4, CHR 0xEF, CHR 0xB8, CHR 0x8F] @ '' Weather'', ''weather_info''),
                    ([CHR 0xF0, CHR 0x9F, CHR 0x93, CHR 0x88] @ '' Market'', ''market_info'')],
                   [([CHR 0xF0, CHR 0x9F, CHR 0x8C, CHR 0xB1] @ '' Crops'', ''crop_info''),
                    ([CHR 0xF0, CHR 0x9F, CHR 0x92, CHR 0xA1] @ '' Tips'', ''farming_tips'')]]\<rparr>,
              [prompt])
         | Inl error \<Rightarrow>
             (let responses =
                [[CHR 0xF0, CHR 0x9F, CHR 0xA4, CHR 0x94]
         @ '' I'm not entirely sure about that specific question, but I'd ''
         @ ''be happy to help! Could you rephrase it or ask about:''
         @ [CHR 0x0A, CHR 0x0A]
         @ [CHR 0xE2, CHR 0x80, CHR 0xA2] @ '' Weather and climate'' @ [CHR 0x0A]
         @ [CHR 0xE2, CHR 0x80, CHR 0xA2] @ '' Crop growing techniques'' @ [CHR 0x0A]
         @ [CHR 0xE2, CHR 0x80, CHR 0xA2] @ '' Market prices'' @ [CHR 0x0A]
         @ [CHR 0xE2, CHR 0x80, CHR 0xA2] @ '' Pest management'' @ [CHR 0x0A]
         @ [CHR 0xE2, CHR 0x80, CHR 0xA2] @ '' Irrigation methods'' @ [CHR 0x0A]
         @ [CHR 0xE2, CHR 0x80, CHR 0xA2] @ '' Fertilizers and soil health'',
                 [CHR 0xF0, CHR 0x9F, CHR 0x8C, CHR 0xB1]
         @ '' That's an interesting agricultural question! While I'm still ''
         @ ''learning, I can definitely help you with weather, crops, markets, ''
         @ ''and farming techniques. What specifically would you like to '' @ ''know?'',
                 [CHR 0xF0, CHR 0x9F, CHR 0x9A, CHR 0x9C]
         @ '' I want to make sure I give you the best agricultural advice! ''
         @ ''Could you provide a bit more detail about what you're looking ''
         @ ''for? I'm great with weather, crop care, market info, and farming ''
         @ ''practices.'']
              in (\<lparr>text = pick (random env) responses,
                   confidence = 0.5,
                   keyboard = Some
                  [[([CHR 0xF0, CHR 0x9F, CHR 0x8C, CHR 0xA4, CHR 0xEF, CHR 0xB8, CHR 0x8F] @ '' Weather'', ''weather''),
                    ([CHR 0xF0, CHR 0x9F, CHR 0x93, CHR 0x8A] @ '' Market'', ''market'')],
                   [([CHR 0xF0, CHR 0x9F, CHR 0x92, CHR 0xA1] @ '' Get Advice'', ''advice''),
                    ([CHR 0xE2, CHR 0x9D, CHR 0x93] @ '' Help'', ''help'')]]\<rparr>,
                  [prompt])))"

text \<open>\<open>generateResponse\<close>: the \<open>switch\<close> on the intent, \<open>general\<close> being its default.\<close>

definition generateResponse ::
    "env \<Rightarrow> intent \<Rightarrow> entity list \<Rightarrow> string \<Rightarrow> user \<Rightarrow> response \<times> string list" where
  "generateResponse env intent entities originalText user =
     (case intent of
        Greeting \<Rightarrow> (generateGreetingResponse env user, [])
      | Weather \<Rightarrow> (generateWeatherResponse entities user, [])
      | Crops \<Rightarrow> generateCropResponse env entities originalText user
      | Market \<Rightarrow> (generateMarketResponse entities user, [])
      | Pest \<Rightarrow> generatePestResponse env entities originalText
      | Irrigation \<Rightarrow> generateIrrigationResponse env entities originalText
      | Fertilizer \<Rightarrow> generateFertilizerResponse env entities originalText
      | News \<Rightarrow> (generateNewsResponse env entities originalText, [])
      | Help \<Rightarrow> (generateHelpResponse, [])
      | General \<Rightarrow> generateGeneralResponse env originalText entities user)"

section \<open>Rate limiting (src/middleware/rateLimiter.js)\<close>

subsection \<open>The adaptive limiter\<close>

text \<open>
  \<open>class AdaptiveRateLimiter\<close>: the scores of the users (a \<open>Map\<close>) and the two
  thresholds. JavaScript numbers are modelled as real numbers.
\<close>

record AdaptiveRateLimiter =
  userScores :: "nat \<rightharpoonup> real"
  suspiciousThreshold :: real
  trustedThreshold :: real

definition new_AdaptiveRateLimiter :: AdaptiveRateLimiter where
  "new_AdaptiveRateLimiter =
     \<lparr>userScores = Map.empty, suspiciousThreshold = 0.7, trustedThreshold = 0.3\<rparr>"

definition calculateTrustScore ::
    "AdaptiveRateLimiter \<Rightarrow> nat \<Rightarrow> real \<Rightarrow> real \<Rightarrow> real \<Rightarrow> AdaptiveRateLimiter \<times> real" where
  "calculateTrustScore this userId messageCount commandCount reportCount =
     (let messageRatio = commandCount / max messageCount 1;
          reportRatio = reportCount / max messageCount 1;
          score = max 0 (1 - (messageRatio * 0.5 + reportRatio * 2))
      in (this\<lparr>userScores := (userScores this)(userId \<mapsto> score)\<rparr>, score))"

text \<open>\<open>this.userScores.get(userId) || 0.5\<close>: \<open>undefined\<close> is falsy, and so is the
  number 0.\<close>

definition trustScoreOf :: "AdaptiveRateLimiter \<Rightarrow> nat \<Rightarrow> real" where
  "trustScoreOf this userId =
     (case userScores this userId of
        None \<Rightarrow> 0.5
      | Some score \<Rightarrow> if score = 0 then 0.5 else score)"

definition getAdjustedLimit :: "AdaptiveRateLimiter \<Rightarrow> nat \<Rightarrow> real \<Rightarrow> real" where
  "getAdjustedLimit this userId baseLimit =
     (let trustScore = trustScoreOf this userId
      in if trustScore < trustedThreshold this then of_int \<lfloor>baseLimit * 0.5\<rfloor>
         else if trustScore > suspiciousThreshold this then of_int \<lfloor>baseLimit * 1.5\<rfloor>
         else baseLimit)"

definition shouldBlock :: "AdaptiveRateLimiter \<Rightarrow> nat \<Rightarrow> bool" where
  "shouldBlock this userId = (let trustScore = trustScoreOf this userId in trustScore < 0.1)"

subsection \<open>The limiters and their wrappers\<close>

text \<open>
  The options of a limiter that matter here: \<open>points\<close>, the capacity, and
  \<open>duration\<close>, the window in seconds. The bot, message and premium limiters have
  literal options; those of the API limiter come from the environment, where
  \<open>parseInt(...) || d\<close> takes the default \<open>d\<close> for a missing, unreadable or zero value.
\<close>

record limiterOptions =
  points :: nat
  duration :: nat

definition botLimiter :: limiterOptions where
  "botLimiter = \<lparr>points = 30, duration = 60\<rparr>"

definition messageLimiter :: limiterOptions where
  "messageLimiter = \<lparr>points = 60, duration = 60\<rparr>"

definition premiumLimiter :: limiterOptions where
  "premiumLimiter = \<lparr>points = 200, duration = 15 * 60\<rparr>"

definition parseInt_or :: "nat option \<Rightarrow> nat \<Rightarrow> nat" where
  "parseInt_or v d = (case v of None \<Rightarrow> d | Some n \<Rightarrow> if n = 0 then d else n)"

definition apiLimiter :: "nat option \<Rightarrow> nat option \<Rightarrow> limiterOptions" where
  "apiLimiter RATE_LIMIT_MAX_REQUESTS RATE_LIMIT_WINDOW =
     \<lparr>points = parseInt_or RATE_LIMIT_MAX_REQUESTS 100,
      duration = parseInt_or RATE_LIMIT_WINDOW 15 * 60\<rparr>"

text \<open>
  The value a \<open>consume\<close> resolves or rejects with; the wrappers read its
  \<open>msBeforeNext\<close> and \<open>remainingPoints\<close>.
\<close>

record RateLimiterRes =
  msBeforeNext :: int
  remainingPoints :: nat
  consumedPoints :: nat

text \<open>
  Modelled from the spec: the storage of a limiter, which belongs to the package
  \<open>rate-limiter-flexible\<close> and is not part of the sources. The spec has one bucket
  per identity; here it is, for each key, the points consumed in the current window and
  the instant, in milliseconds, at which the window ends.
\<close>

type_synonym limiterStorage = "nat \<rightharpoonup> nat \<times> int"

text \<open>
  Modelled from the spec: the limiter itself, class \<open>RateLimiterMemory\<close> of the package
  \<open>rate-limiter-flexible\<close>, is not part of the sources. The spec gives its contract:
  one bucket per identity, with a capacity and a window; a consume is allowed or denied
  with the time to wait; N consumes within the window succeed, a further consume within
  the same window is denied, and after the full window a consume succeeds again. So:
  the first consume of a fresh key opens a window of \<open>duration\<close> seconds; a consume
  within the window counts one point and is rejected once the count exceeds \<open>points\<close>,
  with the milliseconds left in the window; at the end of the window the key is fresh
  again. The result is \<open>Inr\<close> when the promise resolves and \<open>Inl\<close> when it rejects.
  The spec also speaks of points trickling back over the window. That is the option
  \<open>execEvenly\<close>, which spreads the resolved consumes over the window by delaying them;
  it decides no admission, and a model in which points came back inside the window would
  contradict the contract above, so the pacing is left out.
\<close>

definition consume ::
    "limiterOptions \<Rightarrow> limiterStorage \<Rightarrow> nat \<Rightarrow> int
      \<Rightarrow> limiterStorage \<times> (RateLimiterRes + RateLimiterRes)" where
  "consume opts storage key now =
     (let (consumed, expiresAt) =
            (case storage key of
               None \<Rightarrow> (1, now + int (duration opts) * 1000)
             | Some (consumed, expiresAt) \<Rightarrow>
                 if now < expiresAt then (consumed + 1, expiresAt)
                 else (1, now + int (duration opts) * 1000));
          res = \<lparr>msBeforeNext = expiresAt - now,
                 remainingPoints = points opts - consumed,
                 consumedPoints = consumed\<rparr>
      in (storage(key \<mapsto> (consumed, expiresAt)),
          if consumed > points opts then Inl res else Inr res))"

text \<open>\<open>Math.round(ms / 1000)\<close>: to the nearest integer, a half upwards.\<close>

definition Math_round_seconds :: "int \<Rightarrow> int" where
  "Math_round_seconds ms = (ms + 500) div 1000"

text \<open>
  \<open>checkBotRateLimit\<close>, \<open>checkMessageRateLimit\<close> and \<open>checkPremiumRateLimit\<close> have one
  body, each on its own limiter: \<open>{allowed: true}\<close> when the consume resolves, and
  \<open>{allowed: false, remainingTime, message}\<close> when it rejects, with \<open>remainingTime\<close>
  the rounded seconds; the message is a text around \<open>remainingTime\<close>. The middleware
  \<open>rateLimiter\<close> answers a rejection with status 429 and the same number as
  \<open>retryAfter\<close>.
\<close>

datatype rateLimit = Allowed | Denied int

definition checkRateLimit ::
    "limiterOptions \<Rightarrow> limiterStorage \<Rightarrow> nat \<Rightarrow> int \<Rightarrow> limiterStorage \<times> rateLimit" where
  "checkRateLimit limiter storage uid now =
     (case consume limiter storage uid now of
        (storage, Inr res) \<Rightarrow> (storage, Allowed)
      | (storage, Inl rateLimiterRes) \<Rightarrow>
          (let remainingTime = Math_round_seconds (msBeforeNext rateLimiterRes)
           in (storage, Denied remainingTime)))"

text \<open>
  The Express middleware \<open>rateLimiter\<close>, with the API limiter as \<open>limiter\<close>:
  \<open>next()\<close> when the consume resolves, and otherwise status 429 with \<open>retryAfter\<close>,
  \<open>limit\<close> and \<open>remaining\<close>. The key is \<open>req.user?.telegramId || req.ip\<close>.
\<close>

datatype apiReply = Next | TooManyRequests int nat nat

definition rateLimiter ::
    "limiterOptions \<Rightarrow> limiterStorage \<Rightarrow> nat \<Rightarrow> int \<Rightarrow> limiterStorage \<times> apiReply" where
  "rateLimiter limiter storage key now =
     (case consume limiter storage key now of
        (storage, Inr res) \<Rightarrow> (storage, Next)
      | (storage, Inl rateLimiterRes) \<Rightarrow>
          (let remainingTime = Math_round_seconds (msBeforeNext rateLimiterRes)
           in (storage,
               TooManyRequests remainingTime (points limiter) (remainingPoints rateLimiterRes))))"

definition checkBotRateLimit :: "limiterStorage \<Rightarrow> nat \<Rightarrow> int \<Rightarrow> limiterStorage \<times> rateLimit" where
  "checkBotRateLimit = checkRateLimit botLimiter"

definition checkMessageRateLimit :: "limiterStorage \<Rightarrow> nat \<Rightarrow> int \<Rightarrow> limiterStorage \<times> rateLimit" where
  "checkMessageRateLimit = checkRateLimit messageLimiter"

definition checkPremiumRateLimit :: "limiterStorage \<Rightarrow> nat \<Rightarrow> int \<Rightarrow> limiterStorage \<times> rateLimit" where
  "checkPremiumRateLimit = checkRateLimit premiumLimiter"

text \<open>A caller that checks the limit at each of a list of instants, one after the other.\<close>

fun checkRateLimits ::
    "limiterOptions \<Rightarrow> limiterStorage \<Rightarrow> nat \<Rightarrow> int list \<Rightarrow> limiterStorage \<times> rateLimit list" where
  "checkRateLimits limiter storage uid [] = (storage, [])"
| "checkRateLimits limiter storage uid (now # later) =
     (let (storage, r) = checkRateLimit limiter storage uid now;
          (storage, rs) = checkRateLimits limiter storage uid later
      in (storage, r # rs))"

section \<open>The document store\<close>

text \<open>
  The three Mongoose collections, each a list of documents in storage order. Every
  document has an \<open>_id\<close> (written \<open>id'\<close>) and, by \<open>timestamps: true\<close>, a
  \<open>createdAt\<close>; a conversation also has the \<open>userId\<close> of its user. A store that is
  \<open>down\<close> raises the given error on every operation; all operations of one job run
  see the same store.
\<close>

record document =
  id' :: nat
  createdAt :: int

record conversation = document +
  userId :: nat

record store =
  down :: "error option"
  users :: "user list"
  agriculturalData :: "document list"
  conversations :: "conversation list"

text \<open>\<open>User.find(query)\<close>, the query being a predicate on the documents.\<close>

definition User_find :: "store \<Rightarrow> (user \<Rightarrow> bool) \<Rightarrow> error + user list" where
  "User_find st query = (case down st of Some e \<Rightarrow> Inl e | None \<Rightarrow> Inr (filter query (users st)))"

section \<open>CronJobs: the notification jobs (src/cron/cronJobs.js)\<close>

text \<open>
  What a job run leaves behind, in order: the messages \<open>bot.sendMessage\<close> accepted, the
  messages it rejected, and the lines written to the logger. A log line is kept as its
  kind and its parameters: the job, the number of users or the recipient, the error.
\<close>

datatype log_entry =
  Info_sending string nat
| Warn_failed string nat error
| Error_in string error
| Info_cleaned nat

datatype event =
  Sent nat string
| Rejected nat string error
| Logged log_entry

text \<open>
  The collaborators of the jobs. \<open>weatherMessage\<close> stands for
  \<open>weatherService.getAgriculturalWeather\<close> followed by \<open>formatWeatherUpdateMessage\<close>:
  the rendered text, or the error one of them raised. \<open>marketMessage\<close> stands for
  \<open>marketService.getMarketPrices\<close> followed by \<open>formatMarketUpdateMessage\<close> likewise.
  \<open>sendMessage\<close> is the delivery channel: \<open>None\<close> when the send resolves, the error
  when it rejects. The pause \<open>this.delay(100)\<close> after a send changes no result.
\<close>

record world =
  weatherMessage :: "user \<Rightarrow> error + string"
  marketMessage :: "user \<Rightarrow> error + string"
  sendMessage :: "nat \<Rightarrow> string \<Rightarrow> error option"

text \<open>The body of the \<open>try\<close> block for one user, after rendering: send, or log.\<close>

definition deliver :: "world \<Rightarrow> string \<Rightarrow> user \<Rightarrow> error + string \<Rightarrow> event list" where
  "deliver w job user rendered =
     (case rendered of
        Inl error \<Rightarrow> [Logged (Warn_failed job (telegramId user) error)]
      | Inr message \<Rightarrow>
          (case sendMessage w (telegramId user) message of
             None \<Rightarrow> [Sent (telegramId user) message]
           | Some error \<Rightarrow>
               [Rejected (telegramId user) message error,
                Logged (Warn_failed job (telegramId user) error)]))"

text \<open>
  In JavaScript every object is truthy, whatever its properties.
\<close>

definition truthy_object :: "'a \<Rightarrow> bool" where
  "truthy_object obj = True"

text \<open>
  The value the guard \<open>!user.profile?.location?.coordinates\<close> of the weather loop
  negates. The users of the loop are hydrated documents, so \<open>profile\<close>, its
  \<open>location\<close> and the \<open>coordinates\<close> of that are objects, also for a user whose
  latitude and longitude were never stored: the value is truthy for every user, and the
  \<open>continue\<close> under the comment \<open>Skip users without location\<close> is never taken.
\<close>

definition hasCoordinates :: "user \<Rightarrow> bool" where
  "hasCoordinates user = truthy_object (coordinates (location (profile user)))"

fun sendWeatherUpdates_loop :: "world \<Rightarrow> user list \<Rightarrow> event list" where
  "sendWeatherUpdates_loop w [] = []"
| "sendWeatherUpdates_loop w (user # rest) =
     (if \<not> hasCoordinates user then sendWeatherUpdates_loop w rest
      else deliver w ''weather'' user (weatherMessage w user) @ sendWeatherUpdates_loop w rest)"

definition sendWeatherUpdates :: "world \<Rightarrow> store \<Rightarrow> event list" where
  "sendWeatherUpdates w st =
     (case User_find st (\<lambda>u. weather (notificationSettings (botData u)) = True
                              \<and> isBanned (permissions u) = False) of
        Inl error \<Rightarrow> [Logged (Error_in ''sendWeatherUpdates'' error)]
      | Inr found \<Rightarrow>
          Logged (Info_sending ''weather'' (length found)) # sendWeatherUpdates_loop w found)"



text \<open>
  \<open>cleanupOldData\<close>. The agricultural data created before the instant thirty days ago
  are deleted. Then, for every user of the directory, the conversations of that user are
  sorted by \<open>createdAt\<close>, newest first, the first 1000 are skipped, and the rest are
  deleted by \<open>_id\<close>. MongoDB leaves the order of documents with equal \<open>createdAt\<close>
  open; here the sort is stable on the storage order.
\<close>

definition trimConversations :: "nat \<Rightarrow> conversation list \<Rightarrow> conversation list" where
  "trimConversations uid cs =
     (let found = drop 1000 (sort_key (\<lambda>c. - createdAt c) (filter (\<lambda>c. userId c = uid) cs))
      in if length found > 0
         then (let conversationIds = map id' found
               in filter (\<lambda>c. id' c \<notin> set conversationIds) cs)
         else cs)"

fun cleanupOldData_loop :: "user list \<Rightarrow> conversation list \<Rightarrow> conversation list" where
  "cleanupOldData_loop [] cs = cs"
| "cleanupOldData_loop (user # rest) cs =
     cleanupOldData_loop rest (trimConversations (telegramId user) cs)"

definition cleanupOldData :: "store \<Rightarrow> int \<Rightarrow> store \<times> event list" where
  "cleanupOldData st now =
     (case down st of
        Some error \<Rightarrow> (st, [Logged (Error_in ''cleanupOldData'' error)])
      | None \<Rightarrow>
          (let thirtyDaysAgo = now - 30 * 24 * 60 * 60 * 1000;
               deleted = filter (\<lambda>d. createdAt d < thirtyDaysAgo) (agriculturalData st);
               kept = filter (\<lambda>d. \<not> createdAt d < thirtyDaysAgo) (agriculturalData st)
           in (st\<lparr>agriculturalData := kept,
                   conversations := cleanupOldData_loop (users st) (conversations st)\<rparr>,
               [Logged (Info_cleaned (length deleted))])))"

text \<open>
  For stating the properties of the jobs. The queries of the two jobs; an account is
  located when its latitude and longitude are stored; it is eligible for the weather
  update when the query selects it and it is located, and eligible for the market
  update when the query selects it. Then: what was handed to the delivery channel, and
  who was processed with which outcome.
\<close>

definition weatherQuery :: "user \<Rightarrow> bool" where
  "weatherQuery u \<longleftrightarrow>
     weather (notificationSettings (botData u)) = True \<and> isBanned (permissions u) = False"

definition located :: "user \<Rightarrow> bool" where
  "located u \<longleftrightarrow>
     latitude (coordinates (location (profile u))) \<noteq> None
     \<and> longitude (coordinates (location (profile u))) \<noteq> None"

definition weatherEligible :: "user \<Rightarrow> bool" where
  "weatherEligible u \<longleftrightarrow> weatherQuery u \<and> located u"

definition marketEligible :: "user \<Rightarrow> bool" where
  "marketEligible u \<longleftrightarrow>
     marketPrices (notificationSettings (botData u)) = True \<and> isBanned (permissions u) = False
     \<and> cropTypes (profile u) \<noteq> []"

fun handedToChannel :: "event list \<Rightarrow> (nat \<times> string) list" where
  "handedToChannel [] = []"
| "handedToChannel (Sent uid m # es) = (uid, m) # handedToChannel es"
| "handedToChannel (Rejected uid m e # es) = (uid, m) # handedToChannel es"
| "handedToChannel (Logged l # es) = handedToChannel es"

fun successfulSends :: "event list \<Rightarrow> nat list" where
  "successfulSends [] = []"
| "successfulSends (Sent uid m # es) = uid # successfulSends es"
| "successfulSends (_ # es) = successfulSends es"

fun loggedFailures :: "event list \<Rightarrow> nat list" where
  "loggedFailures [] = []"
| "loggedFailures (Logged (Warn_failed job uid e) # es) = uid # loggedFailures es"
| "loggedFailures (_ # es) = loggedFailures es"

fun processed :: "event list \<Rightarrow> nat list" where
  "processed [] = []"
| "processed (Sent uid m # es) = uid # processed es"
| "processed (Logged (Warn_failed job uid e) # es) = uid # processed es"
| "processed (_ # es) = processed es"

text \<open>A recipient fails when its message cannot be rendered or its send is rejected.\<close>

definition fails :: "world \<Rightarrow> (user \<Rightarrow> error + string) \<Rightarrow> user \<Rightarrow> bool" where
  "fails w render u =
     (case render u of Inl e \<Rightarrow> True | Inr m \<Rightarrow> sendMessage w (telegramId u) m \<noteq> None)"

definition mine :: "nat \<Rightarrow> conversation list \<Rightarrow> conversation list" where
  "mine uid cs = filter (\<lambda>c. userId c = uid) cs"

text \<open>The conversations of a user beyond the 1000 newest: what one pass of the loop
  of \<open>cleanupOldData\<close> finds for that user.\<close>

definition expired :: "nat \<Rightarrow> conversation list \<Rightarrow> conversation list" where
  "expired uid cs = drop 1000 (sort_key (\<lambda>c. - createdAt c) (mine uid cs))"

section \<open>Telegram authentication (routes/auth.js, src/middleware/auth.js)\<close>

text \<open>
  The body of the login request, after \<open>parseInt(authData.id)\<close>: \<open>login_id\<close> and
  \<open>login_username\<close> are its \<open>id\<close> and \<open>username\<close>. \<open>validateTelegramLogin\<close>
  checks an HMAC of the body and its age; only its outcome is taken: \<open>None\<close> when it
  returns, the error when it throws. \<open>generateToken\<close> signs a token for the user.
\<close>

record authData =
  login_id :: nat
  login_username :: "string option"
  first_name :: string
  last_name :: "string option"

record authEnv =
  validateTelegramLogin :: "authData \<Rightarrow> error option"
  generateToken :: "user \<Rightarrow> string"

text \<open>The replies of \<open>POST /telegram\<close>: 200 with token and user, 403 with the ban
  reason, 400 with the message of the error, 500.\<close>

datatype authReply =
  Authenticated string user
| AccountBanned "string option"
| InvalidAuthentication string
| AuthenticationFailed

text \<open>The \<open>catch\<close> block of the handler.\<close>

fun errorReply :: "error \<Rightarrow> authReply" where
  "errorReply (Error message) =
     (if str_includes message ''Invalid authentication data''
         \<or> str_includes message ''Hash is required''
         \<or> str_includes message ''too old''
      then InvalidAuthentication message
      else AuthenticationFailed)"

text \<open>\<open>new User({telegramId, username, firstName, lastName})\<close> with the defaults of
  the schema.\<close>

definition newUser :: "authData \<Rightarrow> int \<Rightarrow> user" where
  "newUser authData now =
     \<lparr>telegramId = login_id authData,
      username = login_username authData,
      firstName = first_name authData,
      lastName = last_name authData,
      profile = \<lparr>cropTypes = [],
                 location = \<lparr>city = None,
                             coordinates = \<lparr>latitude = None, longitude = None\<rparr>\<rparr>\<rparr>,
      botData = \<lparr>lastInteraction = now,
                 notificationSettings = \<lparr>weather = True, marketPrices = True\<rparr>\<rparr>,
      analytics = \<lparr>lastActiveTime = now\<rparr>,
      permissions = \<lparr>isBanned = False, banReason = None\<rparr>,
      agriculturalProfile = None\<rparr>"

text \<open>\<open>user.save()\<close>: the document replaces the stored one with its \<open>telegramId\<close> (a
  unique key of the collection), or is added.\<close>

definition save :: "store \<Rightarrow> user \<Rightarrow> store" where
  "save st user =
     (if \<exists>u \<in> set (users st). telegramId u = telegramId user
      then st\<lparr>users := map (\<lambda>u. if telegramId u = telegramId user then user else u) (users st)\<rparr>
      else st\<lparr>users := users st @ [user]\<rparr>)"

text \<open>\<open>userSchema.methods.updateLastInteraction\<close>: it returns \<open>this.save()\<close>.\<close>

definition updateLastInteraction :: "store \<Rightarrow> user \<Rightarrow> int \<Rightarrow> store \<times> user" where
  "updateLastInteraction st user now =
     (let user = user\<lparr>botData := (botData user)\<lparr>lastInteraction := now\<rparr>\<rparr>;
          user = user\<lparr>analytics := (analytics user)\<lparr>lastActiveTime := now\<rparr>\<rparr>
      in (save st user, user))"

text \<open>The handler of \<open>POST /telegram\<close>.\<close>

definition telegramLogin :: "authEnv \<Rightarrow> store \<Rightarrow> int \<Rightarrow> authData \<Rightarrow> store \<times> authReply" where
  "telegramLogin env st now authData =
     (case validateTelegramLogin env authData of
        Some error \<Rightarrow> (st, errorReply error)
      | None \<Rightarrow>
          (case down st of
             Some error \<Rightarrow> (st, errorReply error)
           | None \<Rightarrow>
               (let (st, user) =
                  (case find (\<lambda>u. telegramId u = login_id authData) (users st) of
                     None \<Rightarrow> (let user = newUser authData now in (save st user, user))
                   | Some user \<Rightarrow>
                       (let updated = (username user \<noteq> login_username authData
                                        \<or> firstName user \<noteq> first_name authData
                                        \<or> lastName user \<noteq> last_name authData);
                            user = (if username user \<noteq> login_username authData
                                    then user\<lparr>username := login_username authData\<rparr> else user);
                            user = (if firstName user \<noteq> first_name authData
                                    then user\<lparr>firstName := first_name authData\<rparr> else user);
                            user = (if lastName user \<noteq> last_name authData
                                    then user\<lparr>lastName := last_name authData\<rparr> else user);
                            st = (if updated then save st user else st)
                        in updateLastInteraction st user now))
                in if isBanned (permissions user)
                   then (st, AccountBanned (banReason (permissions user)))
                   else (st, Authenticated (generateToken env user) user))))"

text \<open>
  The middleware \<open>telegramAuth\<close> of the other routes, from the point where the token
  has been verified and decoded to a \<open>telegramId\<close>: 401 for an unknown user, 403 for a
  banned one, and otherwise the interaction is recorded and the request goes on.
\<close>

datatype authOutcome =
  Next_user user
| AccessDenied
| AccessForbidden "string option"
| AuthenticationError

definition telegramAuth :: "store \<Rightarrow> int \<Rightarrow> nat \<Rightarrow> store \<times> authOutcome" where
  "telegramAuth st now decodedId =
     (case down st of
        Some error \<Rightarrow> (st, AuthenticationError)
      | None \<Rightarrow>
          (case find (\<lambda>u. telegramId u = decodedId) (users st) of
             None \<Rightarrow> (st, AccessDenied)
           | Some user \<Rightarrow>
               if isBanned (permissions user)
               then (st, AccessForbidden (banReason (permissions user)))
               else (let (st, user) = updateLastInteraction st user now in (st, Next_user user))))"

section \<open>Sample inputs\<close>

text \<open>A user document with the defaults of the schema; a world in which every
  external service fails; and a world in which the advice backend answers every prompt
  with one line.\<close>

definition sampleUser :: user where
  "sampleUser =
     \<lparr>telegramId = 1001,
      username = Some ''wanjiru'',
      firstName = ''Wanjiru'',
      lastName = None,
      profile = \<lparr>cropTypes = [],
                 location = \<lparr>city = None,
                             coordinates = \<lparr>latitude = None, longitude = None\<rparr>\<rparr>\<rparr>,
      botData = \<lparr>lastInteraction = 0,
                 notificationSettings = \<lparr>weather = True, marketPrices = True\<rparr>\<rparr>,
      analytics = \<lparr>lastActiveTime = 0\<rparr>,
      permissions = \<lparr>isBanned = False, banReason = None\<rparr>,
      agriculturalProfile = None\<rparr>"

definition backendDown :: env where
  "backendDown =
     \<lparr>model = (\<lambda>prompt. Inl (Error ''service unavailable'')),
      random = 0,
      getNewsByCategory = (\<lambda>category. Inl (Error ''service unavailable'')),
      formatNewsForTelegram = (\<lambda>articles limit. Inl (Error ''service unavailable''))\<rparr>"

definition backendUp :: env where
  "backendUp = backendDown\<lparr>model := (\<lambda>prompt. Inr ''Plant at the onset of the long rains.'')\<rparr>"

definition cornQuestion :: string where
  "cornQuestion = ''What's the best time to plant corn?''"

text \<open>The fact sheet of corn, as \<open>generateCropResponse\<close> renders it from
  \<open>cropDatabase\<close>.\<close>

definition cornFactSheet :: string where
  "cornFactSheet =
          [CHR 0xF0, CHR 0x9F, CHR 0x8C, CHR 0xBE] @ '' *Corn Information*''
          @ [CHR 0x0A, CHR 0x0A, CHR 0xF0, CHR 0x9F, CHR 0x8C, CHR 0xB1]
          @ '' Planting Time: April-June''
          @ [CHR 0x0A, CHR 0xF0, CHR 0x9F, CHR 0x8C, CHR 0xBE]
          @ '' Harvest Time: August-October''
          @ [CHR 0x0A, CHR 0xF0, CHR 0x9F, CHR 0x92, CHR 0xA7]
          @ '' Water Requirement: High''
          @ [CHR 0x0A, CHR 0xF0, CHR 0x9F, CHR 0xA6, CHR 0xA0]
          @ '' Common Diseases: Corn Borer, Leaf Blight''
          @ [CHR 0x0A, CHR 0xF0, CHR 0x9F, CHR 0x92, CHR 0xA1]
          @ '' Tip: Requires warm weather and regular watering''"

text \<open>
  A directory of four users who asked for weather and market updates: one located user
  who grows corn, one user without stored coordinates and without crops, one located
  user whose chat rejects every message, and one banned user. Two worlds: one in which
  everything works except the chat of the third user, and one in which the weather
  service cannot be reached.
\<close>

definition locatedUser :: user where
  "locatedUser =
     sampleUser\<lparr>profile :=
       \<lparr>cropTypes = [''corn''],
        location = \<lparr>city = Some ''Nakuru'',
                     coordinates = \<lparr>latitude = Some (- 0.3), longitude = Some 36.08\<rparr>\<rparr>\<rparr>\<rparr>"

definition blockedUser :: user where
  "blockedUser = locatedUser\<lparr>telegramId := 1003\<rparr>"

definition unlocatedUser :: user where
  "unlocatedUser = sampleUser\<lparr>telegramId := 1002\<rparr>"

definition bannedUser :: user where
  "bannedUser =
     sampleUser\<lparr>telegramId := 1004,
                 permissions := \<lparr>isBanned = True, banReason = Some ''spam''\<rparr>\<rparr>"

definition sampleWorld :: world where
  "sampleWorld =
     \<lparr>weatherMessage = (\<lambda>u. Inr (''Weather for '' @ firstName u)),
      marketMessage = (\<lambda>u. Inr (''Prices for '' @ firstName u)),
      sendMessage = (\<lambda>uid m. if uid = 1003 then Some (Error ''bot was blocked by the user'') else None)\<rparr>"

definition weatherDown :: world where
  "weatherDown = sampleWorld\<lparr>weatherMessage := (\<lambda>u. Inl (Error ''Unable to fetch weather data''))\<rparr>"

definition sampleStore :: store where
  "sampleStore =
     \<lparr>down = None,
      users = [locatedUser, unlocatedUser, blockedUser, bannedUser],
      agriculturalData = [],
      conversations = []\<rparr>"

text \<open>
  A store, one hundred days after the epoch, with two conversations of the first user:
  one a hundred days old and one a second old; and two agricultural data documents,
  one a hundred days old and one created exactly thirty days ago.
\<close>

definition hundredDays :: int where
  "hundredDays = 100 * 24 * 60 * 60 * 1000"

definition oldConversation :: conversation where
  "oldConversation = \<lparr>id' = 1, createdAt = 0, userId = 1001\<rparr>"

definition recentConversation :: conversation where
  "recentConversation = \<lparr>id' = 2, createdAt = 8639999000, userId = 1001\<rparr>"

definition chatStore :: store where
  "chatStore =
     sampleStore\<lparr>agriculturalData := [\<lparr>id' = 7, createdAt = 0\<rparr>, \<lparr>id' = 8, createdAt = 6048000000\<rparr>],
                 conversations := [oldConversation, recentConversation]\<rparr>"

text \<open>
  The same store after a burst: 1001 conversations of the first user within the last
  second, conversation number \<open>i\<close> created \<open>i\<close> milliseconds ago.
\<close>

definition burst :: "nat \<Rightarrow> conversation" where
  "burst i = \<lparr>id' = i, createdAt = hundredDays - int i, userId = 1001\<rparr>"

definition burstStore :: store where
  "burstStore = sampleStore\<lparr>conversations := map burst [0..<1001]\<rparr>"

text \<open>
  A store with the banned account alone, which last interacted at time 0; the login
  data of that account, and a login service that accepts them.
\<close>

definition bannedStore :: store where
  "bannedStore = sampleStore\<lparr>users := [bannedUser]\<rparr>"

definition bannedLogin :: authData where
  "bannedLogin =
     \<lparr>login_id = 1004, login_username = Some ''wanjiru'', first_name = ''Wanjiru'',
      last_name = None\<rparr>"

definition loginService :: authEnv where
  "loginService = \<lparr>validateTelegramLogin = (\<lambda>authData. None), generateToken = (\<lambda>user. ''token'')\<rparr>"

text \<open>The storage of a limiter before any check, and a burst of thirty commands of
  user 7: one at time 0 and twenty-nine in the same millisecond.\<close>

definition freshStorage :: limiterStorage where
  "freshStorage = Map.empty"

definition commandBurst :: "int list" where
  "commandBurst = 0 # replicate 29 0"

text \<open>The directory without the user who has no coordinates, and the directory while
  the store is unreachable.\<close>

definition locatedStore :: store where
  "locatedStore = sampleStore\<lparr>users := [locatedUser, blockedUser, bannedUser]\<rparr>"

definition storeDown :: store where
  "storeDown = sampleStore\<lparr>down := Some (Error ''connection refused'')\<rparr>"

section \<open>Substring search\<close>

lemma startsWith_prefix: "startsWith t k \<longleftrightarrow> prefix k t"
  by (induction t k rule: startsWith.induct) auto

lemma str_includes_sublist: "str_includes t k \<longleftrightarrow> sublist k t"
  by (induction t) (auto simp: startsWith_prefix sublist_Cons_right)

lemma str_includes_iff: "str_includes t k \<longleftrightarrow> (\<exists>p s. t = p @ k @ s)"
  by (simp add: str_includes_sublist sublist_def)

section \<open>The intent classifier\<close>

lemma detectIntent_loop_filter:
  "detectIntent_loop es lc =
     (case filter (\<lambda>(i, ks). \<exists>k \<in> set ks. str_includes lc k) es of
        [] \<Rightarrow> General
      | (i, ks) # _ \<Rightarrow> i)"
  by (induction es lc rule: detectIntent_loop.induct) (auto simp: list_ex_iff)

lemma filter_keys_of_alist:
  assumes "distinct (map fst es)"
  shows "filter (\<lambda>i. case map_of es i of None \<Rightarrow> False | Some ks \<Rightarrow> P ks) (map fst es) =
         map fst (filter (\<lambda>(i, ks). P ks) es)"
proof -
  have "\<And>e. e \<in> set es \<Longrightarrow> map_of es (fst e) = Some (snd e)"
    using assms by simp
  then have "filter ((\<lambda>i. case map_of es i of None \<Rightarrow> False | Some ks \<Rightarrow> P ks) \<circ> fst) es =
             filter (\<lambda>(i, ks). P ks) es"
    by (intro filter_cong) (auto split: prod.splits)
  then show ?thesis
    by (simp add: filter_map)
qed

lemma distinct_intents: "distinct (map fst intents)"
  by (simp add: intents_def)

lemma detectIntent_filter:
  "detectIntent input =
     (case filter (\<lambda>i. triggers i input) declaredOrder of [] \<Rightarrow> General | i # _ \<Rightarrow> i)"
proof -
  let ?P = "\<lambda>ks. \<exists>k \<in> set ks. str_includes (toLowerCase input) k"
  have "filter (\<lambda>i. triggers i input) declaredOrder = map fst (filter (\<lambda>(i, ks). ?P ks) intents)"
    unfolding declaredOrder_def triggers_def
    by (rule filter_keys_of_alist [OF distinct_intents])
  then show ?thesis
    by (simp add: detectIntent_def detectIntent_loop_filter split: list.splits prod.splits)
qed

lemma filter_unique_hit:
  assumes "i \<in> set xs" and "P i" and "\<forall>j \<in> set xs. j \<noteq> i \<longrightarrow> \<not> P j"
  shows "\<exists>n. filter P xs = replicate (Suc n) i"
  using assms
proof (induction xs)
  case Nil
  then show ?case by simp
next
  case (Cons x xs)
  show ?case
  proof (cases "i \<in> set xs")
    case True
    with Cons obtain n where n: "filter P xs = replicate (Suc n) i"
      by auto
    show ?thesis
    proof (cases "x = i")
      case True
      with n Cons.prems(2) have "filter P (x # xs) = replicate (Suc (Suc n)) i"
        by simp
      then show ?thesis by blast
    next
      case False
      with Cons.prems(3) have "\<not> P x" by simp
      with n show ?thesis by auto
    qed
  next
    case False
    with Cons.prems have "x = i" and "\<forall>j \<in> set xs. \<not> P j"
      by auto
    then have "filter P (x # xs) = replicate (Suc 0) i"
      using Cons.prems(2) by simp
    then show ?thesis by blast
  qed
qed

text \<open>
  C1. \<open>detectIntent\<close> is a function of the input text alone, defined on every string.
  Its result is the first intent, in the order greeting, weather, crops, market, pest,
  irrigation, fertilizer, news, help, one of whose keywords is a substring of the
  lower-cased input. So an input that triggers exactly one intent is classified as that
  intent, and an input that triggers none is classified as general.
\<close>

theorem detectIntent_first_match:
  "declaredOrder = [Greeting, Weather, Crops, Market, Pest, Irrigation, Fertilizer, News, Help]
   \<and> detectIntent input =
       (case filter (\<lambda>i. triggers i input) declaredOrder of [] \<Rightarrow> General | i # _ \<Rightarrow> i)
   \<and> (i \<in> set declaredOrder \<and> triggers i input
        \<and> (\<forall>j \<in> set declaredOrder. j \<noteq> i \<longrightarrow> \<not> triggers j input)
       \<longrightarrow> detectIntent input = i)
   \<and> ((\<forall>j \<in> set declaredOrder. \<not> triggers j input) \<longrightarrow> detectIntent input = General)"
proof (intro conjI impI)
  show "declaredOrder = [Greeting, Weather, Crops, Market, Pest, Irrigation, Fertilizer, News, Help]"
    by (simp add: declaredOrder_def intents_def)
next
  show "detectIntent input =
          (case filter (\<lambda>i. triggers i input) declaredOrder of [] \<Rightarrow> General | i # _ \<Rightarrow> i)"
    by (rule detectIntent_filter)
next
  assume "i \<in> set declaredOrder \<and> triggers i input
            \<and> (\<forall>j \<in> set declaredOrder. j \<noteq> i \<longrightarrow> \<not> triggers j input)"
  then obtain n where "filter (\<lambda>j. triggers j input) declaredOrder = replicate (Suc n) i"
    using filter_unique_hit [of i declaredOrder "\<lambda>j. triggers j input"] by blast
  then show "detectIntent input = i"
    by (simp add: detectIntent_filter)
next
  assume "\<forall>j \<in> set declaredOrder. \<not> triggers j input"
  then have "filter (\<lambda>j. triggers j input) declaredOrder = []"
    by (simp add: filter_empty_conv)
  then show "detectIntent input = General"
    by (simp add: detectIntent_filter)
qed

theorem detectIntent_first_match_witness:
  "detectIntent ''Will it RAIN tomorrow?'' = Weather \<and> detectIntent ''Thanks, bye'' = General"
proof -
  have a: "triggers Weather ''Will it RAIN tomorrow?''"
    by code_simp
  have b: "\<forall>j \<in> set declaredOrder. j \<noteq> Weather \<longrightarrow> \<not> triggers j ''Will it RAIN tomorrow?''"
    by code_simp
  have c: "\<forall>j \<in> set declaredOrder. \<not> triggers j ''Thanks, bye''"
    by code_simp
  have d: "Weather \<in> set declaredOrder"
    by code_simp
  show ?thesis
    using detectIntent_first_match [of "''Will it RAIN tomorrow?''" Weather]
      detectIntent_first_match [of "''Thanks, bye''" General] a b c d
    by blast
qed

section \<open>Entity extraction\<close>

lemma forEach_push_filter:
  "forEach_push ty ws lc acc = acc @ map (\<lambda>w. \<lparr>type = ty, value = w\<rparr>) (filter (str_includes lc) ws)"
  by (induction ty ws lc acc rule: forEach_push.induct) auto

lemma extractEntities_eq:
  "extractEntities input =
     map (\<lambda>w. \<lparr>type = ''crop'', value = w\<rparr>) (filter (str_includes (toLowerCase input)) crops)
     @ map (\<lambda>w. \<lparr>type = ''location'', value = w\<rparr>) (filter (str_includes (toLowerCase input)) locations)"
  by (simp add: extractEntities_def forEach_push_filter Let_def)

lemma count_list_map_inj:
  assumes "inj f"
  shows "count_list (map f xs) (f x) = count_list xs x"
  using assms by (induction xs) (auto dest: injD)

lemma count_list_filter_distinct:
  assumes "distinct xs"
  shows "count_list (filter P xs) x = (if x \<in> set xs \<and> P x then 1 else 0)"
  using assms by (induction xs) auto


lemma inj_entity: "inj (\<lambda>w. \<lparr>type = ty, value = w\<rparr>)"
  by (simp add: inj_def)

lemma count_list_other_type:
  "ty \<noteq> ty' \<Longrightarrow> count_list (map (\<lambda>w. \<lparr>type = ty', value = w\<rparr>) ws) \<lparr>type = ty, value = c\<rparr> = 0"
  by (induction ws) auto

text \<open>
  C2. \<open>extractEntities\<close> returns every match over both vocabularies: the crop entities
  of all crop names that occur in the lower-cased input, in vocabulary order, followed by
  the location entities of all place names that occur in it. Each matched word yields
  exactly one entity and each unmatched word none, so one message can yield several
  entities of the same type.
\<close>

theorem extractEntities_every_match:
  "extractEntities input =
     map (\<lambda>c. \<lparr>type = ''crop'', value = c\<rparr>) (filter (str_includes (toLowerCase input)) crops)
     @ map (\<lambda>l. \<lparr>type = ''location'', value = l\<rparr>) (filter (str_includes (toLowerCase input)) locations)
   \<and> (\<forall>c \<in> set crops.
         count_list (extractEntities input) \<lparr>type = ''crop'', value = c\<rparr> =
           (if str_includes (toLowerCase input) c then 1 else 0))
   \<and> (\<forall>l \<in> set locations.
         count_list (extractEntities input) \<lparr>type = ''location'', value = l\<rparr> =
           (if str_includes (toLowerCase input) l then 1 else 0))"
proof (intro conjI ballI)
  show "extractEntities input =
     map (\<lambda>c. \<lparr>type = ''crop'', value = c\<rparr>) (filter (str_includes (toLowerCase input)) crops)
     @ map (\<lambda>l. \<lparr>type = ''location'', value = l\<rparr>) (filter (str_includes (toLowerCase input)) locations)"
    by (rule extractEntities_eq)
next
  fix c assume "c \<in> set crops"
  moreover have "distinct crops"
    by (simp add: crops_def)
  ultimately show "count_list (extractEntities input) \<lparr>type = ''crop'', value = c\<rparr> =
           (if str_includes (toLowerCase input) c then 1 else 0)"
    by (simp add: extractEntities_eq count_list_other_type
        count_list_map_inj [OF inj_entity] count_list_filter_distinct)
next
  fix l assume "l \<in> set locations"
  moreover have "distinct locations"
    by (simp add: locations_def)
  ultimately show "count_list (extractEntities input) \<lparr>type = ''location'', value = l\<rparr> =
           (if str_includes (toLowerCase input) l then 1 else 0)"
    by (simp add: extractEntities_eq count_list_other_type
        count_list_map_inj [OF inj_entity] count_list_filter_distinct)
qed

theorem extractEntities_every_match_witness:
  "extractEntities ''Wheat and CORN in Nairobi'' =
     [\<lparr>type = ''crop'', value = ''wheat''\<rparr>, \<lparr>type = ''crop'', value = ''corn''\<rparr>,
      \<lparr>type = ''location'', value = ''nairobi''\<rparr>]
   \<and> count_list (extractEntities ''Wheat and CORN in Nairobi'') \<lparr>type = ''crop'', value = ''corn''\<rparr> = 1
   \<and> count_list (extractEntities ''Wheat and CORN in Nairobi'') \<lparr>type = ''crop'', value = ''rice''\<rparr> = 0
   \<and> count_list (extractEntities ''Wheat and CORN in Nairobi'') \<lparr>type = ''location'', value = ''nairobi''\<rparr> = 1"
proof -
  have lc: "toLowerCase ''Wheat and CORN in Nairobi'' = ''wheat and corn in nairobi''"
    by (simp add: toLowerCase_def toLowerChar_def)
  have mem: "''corn'' \<in> set crops" "''rice'' \<in> set crops" "''nairobi'' \<in> set locations"
    by (simp_all add: crops_def locations_def)
  show ?thesis
    using extractEntities_every_match [of "''Wheat and CORN in Nairobi''"] mem
    by (simp add: lc crops_def locations_def)
qed

section \<open>Advice generators and the failing backend\<close>

lemma includes_append_self: "str_includes (k @ s) k"
  by (auto simp: str_includes_iff intro: exI [of _ "[]"])

lemma includes_append_left: "str_includes b k \<Longrightarrow> str_includes (a @ b) k"
  by (metis append.assoc str_includes_iff)

lemma prompt_includes_question:
  "str_includes (pestPrompt originalText) originalText"
  "str_includes (irrigationPrompt originalText) originalText"
  "str_includes (fertilizerPrompt originalText) originalText"
  unfolding pestPrompt_def irrigationPrompt_def fertilizerPrompt_def
  by (intro includes_append_self includes_append_left)+

lemma advice_prompts:
  "snd (generateResponse env Pest entities originalText user) = [pestPrompt originalText]"
  "snd (generateResponse env Irrigation entities originalText user) = [irrigationPrompt originalText]"
  "snd (generateResponse env Fertilizer entities originalText user) = [fertilizerPrompt originalText]"
  by (simp_all add: generateResponse_def generatePestResponse_def generateIrrigationResponse_def
      generateFertilizerResponse_def Let_def split: sum.splits)

lemma advice_fallbacks:
  "model env (pestPrompt originalText) = Inl e \<Longrightarrow>
     fst (generateResponse env Pest entities originalText user) = pestFallback"
  "model env (irrigationPrompt originalText) = Inl e \<Longrightarrow>
     fst (generateResponse env Irrigation entities originalText user) = irrigationFallback"
  "model env (fertilizerPrompt originalText) = Inl e \<Longrightarrow>
     fst (generateResponse env Fertilizer entities originalText user) = fertilizerFallback"
  by (simp_all add: generateResponse_def generatePestResponse_def generateIrrigationResponse_def
      generateFertilizerResponse_def)

lemma advice_live:
  "model env (pestPrompt originalText) = Inr t \<Longrightarrow>
     fst (generateResponse env Pest entities originalText user) =
       \<lparr>text = t, confidence = 0.8, keyboard = None\<rparr>"
  "model env (irrigationPrompt originalText) = Inr t \<Longrightarrow>
     fst (generateResponse env Irrigation entities originalText user) =
       \<lparr>text = t, confidence = 0.8, keyboard = None\<rparr>"
  "model env (fertilizerPrompt originalText) = Inr t \<Longrightarrow>
     fst (generateResponse env Fertilizer entities originalText user) =
       \<lparr>text = t, confidence = 0.8, keyboard = None\<rparr>"
  by (simp_all add: generateResponse_def generatePestResponse_def generateIrrigationResponse_def
      generateFertilizerResponse_def)

lemma fallback_texts_nonempty:
  "text pestFallback \<noteq> []" "text irrigationFallback \<noteq> []" "text fertilizerFallback \<noteq> []"
  by (simp_all add: pestFallback_def irrigationFallback_def fertilizerFallback_def)

lemma fallback_confidence:
  "confidence pestFallback \<le> 0.7" "confidence irrigationFallback \<le> 0.7"
  "confidence fertilizerFallback \<le> 0.7"
  by (simp_all add: pestFallback_def irrigationFallback_def fertilizerFallback_def)

lemma fallback_texts_domain:
  "str_includes (text pestFallback) ''pest management''"
  "str_includes (text irrigationFallback) ''irrigation''"
  "str_includes (text fertilizerFallback) ''fertilizer''"
  by code_simp+

lemma fallback_texts_distinct:
  "distinct [text pestFallback, text irrigationFallback, text fertilizerFallback]"
  by (simp add: pestFallback_def irrigationFallback_def fertilizerFallback_def)

text \<open>
  C3. For the intents pest, irrigation and fertilizer, \<open>generateResponse\<close> hands exactly
  one prompt to the backend, the template of that domain around the user's text. When
  the backend answers, the response is that answer, with confidence 0.8 and no keyboard.
  The result is a response for every backend: when the backend raises, the error is
  caught and the response is the canned text of that domain, which is not empty, names
  its domain, differs from the other two, and has confidence 0.7.
\<close>

theorem advice_backend_failure_is_caught:
  "snd (generateResponse env Pest entities originalText user) = [pestPrompt originalText]
   \<and> snd (generateResponse env Irrigation entities originalText user) = [irrigationPrompt originalText]
   \<and> snd (generateResponse env Fertilizer entities originalText user) = [fertilizerPrompt originalText]
   \<and> str_includes (pestPrompt originalText) originalText
   \<and> str_includes (irrigationPrompt originalText) originalText
   \<and> str_includes (fertilizerPrompt originalText) originalText
   \<and> (\<forall>t. model env (pestPrompt originalText) = Inr t \<longrightarrow>
          fst (generateResponse env Pest entities originalText user) =
            \<lparr>text = t, confidence = 0.8, keyboard = None\<rparr>)
   \<and> (\<forall>t. model env (irrigationPrompt originalText) = Inr t \<longrightarrow>
          fst (generateResponse env Irrigation entities originalText user) =
            \<lparr>text = t, confidence = 0.8, keyboard = None\<rparr>)
   \<and> (\<forall>t. model env (fertilizerPrompt originalText) = Inr t \<longrightarrow>
          fst (generateResponse env Fertilizer entities originalText user) =
            \<lparr>text = t, confidence = 0.8, keyboard = None\<rparr>)
   \<and> ((\<exists>e. model env (pestPrompt originalText) = Inl e) \<longrightarrow>
          fst (generateResponse env Pest entities originalText user) = pestFallback)
   \<and> ((\<exists>e. model env (irrigationPrompt originalText) = Inl e) \<longrightarrow>
          fst (generateResponse env Irrigation entities originalText user) = irrigationFallback)
   \<and> ((\<exists>e. model env (fertilizerPrompt originalText) = Inl e) \<longrightarrow>
          fst (generateResponse env Fertilizer entities originalText user) = fertilizerFallback)
   \<and> (\<forall>r \<in> {pestFallback, irrigationFallback, fertilizerFallback}.
         text r \<noteq> [] \<and> confidence r \<le> 0.7)
   \<and> str_includes (text pestFallback) ''pest management''
   \<and> str_includes (text irrigationFallback) ''irrigation''
   \<and> str_includes (text fertilizerFallback) ''fertilizer''
   \<and> distinct [text pestFallback, text irrigationFallback, text fertilizerFallback]"
proof -
  have canned: "\<forall>r \<in> {pestFallback, irrigationFallback, fertilizerFallback}.
          text r \<noteq> [] \<and> confidence r \<le> 0.7"
    using fallback_texts_nonempty fallback_confidence by blast
  have down: "(\<exists>e. model env (pestPrompt originalText) = Inl e) \<longrightarrow>
      fst (generateResponse env Pest entities originalText user) = pestFallback"
    "(\<exists>e. model env (irrigationPrompt originalText) = Inl e) \<longrightarrow>
      fst (generateResponse env Irrigation entities originalText user) = irrigationFallback"
    "(\<exists>e. model env (fertilizerPrompt originalText) = Inl e) \<longrightarrow>
      fst (generateResponse env Fertilizer entities originalText user) = fertilizerFallback"
    using advice_fallbacks [of env originalText _ entities user] by blast+
  have live: "\<forall>t. model env (pestPrompt originalText) = Inr t \<longrightarrow>
          fst (generateResponse env Pest entities originalText user) =
            \<lparr>text = t, confidence = 0.8, keyboard = None\<rparr>"
    "\<forall>t. model env (irrigationPrompt originalText) = Inr t \<longrightarrow>
          fst (generateResponse env Irrigation entities originalText user) =
            \<lparr>text = t, confidence = 0.8, keyboard = None\<rparr>"
    "\<forall>t. model env (fertilizerPrompt originalText) = Inr t \<longrightarrow>
          fst (generateResponse env Fertilizer entities originalText user) =
            \<lparr>text = t, confidence = 0.8, keyboard = None\<rparr>"
    using advice_live [of env originalText _ entities user] by blast+
  show ?thesis
    by (intro conjI advice_prompts prompt_includes_question live down canned
        fallback_texts_domain fallback_texts_distinct)
qed

theorem advice_backend_failure_is_caught_witness:
  "fst (generateResponse backendDown Pest [] ''bugs on my maize'' sampleUser) = pestFallback
   \<and> fst (generateResponse backendDown Irrigation [] ''bugs on my maize'' sampleUser) = irrigationFallback
   \<and> fst (generateResponse backendDown Fertilizer [] ''bugs on my maize'' sampleUser) = fertilizerFallback
   \<and> fst (generateResponse backendUp Pest [] ''bugs on my maize'' sampleUser) =
       \<lparr>text = ''Plant at the onset of the long rains.'', confidence = 0.8, keyboard = None\<rparr>
   \<and> fst (generateResponse backendUp Irrigation [] ''bugs on my maize'' sampleUser) =
       \<lparr>text = ''Plant at the onset of the long rains.'', confidence = 0.8, keyboard = None\<rparr>
   \<and> fst (generateResponse backendUp Fertilizer [] ''bugs on my maize'' sampleUser) =
       \<lparr>text = ''Plant at the onset of the long rains.'', confidence = 0.8, keyboard = None\<rparr>
   \<and> text pestFallback \<noteq> [] \<and> confidence pestFallback \<le> 0.7"
proof -
  have down: "\<And>p. \<exists>e. model backendDown p = Inl e"
    by (simp add: backendDown_def)
  have up: "\<And>p. model backendUp p = Inr ''Plant at the onset of the long rains.''"
    by (simp add: backendUp_def)
  show ?thesis
    using advice_backend_failure_is_caught [of backendDown "[]" "''bugs on my maize''" sampleUser]
      advice_backend_failure_is_caught [of backendUp "[]" "''bugs on my maize''" sampleUser]
      down up
    by blast
qed

section \<open>The corn question\<close>

lemma cornQuestion_intent: "detectIntent cornQuestion = Crops"
  by code_simp

lemma cornQuestion_entities:
  "extractEntities cornQuestion = [\<lparr>type = ''crop'', value = ''corn''\<rparr>]"
  by code_simp

lemma cornQuestion_best: "str_includes cornQuestion ''best''"
  by code_simp

lemma corn_in_database:
  "map_of cropDatabase ''corn'' =
     Some \<lparr>plantingTime = ''April-June'', harvestTime = ''August-October'',
           waterRequirement = ''High'', commonDiseases = [''Corn Borer'', ''Leaf Blight''],
           tips = ''Requires warm weather and regular watering''\<rparr>"
  by (simp add: cropDatabase_def)

lemma corn_sheet:
  "cropFactSheet \<lparr>type = ''crop'', value = ''corn''\<rparr>
       \<lparr>plantingTime = ''April-June'', harvestTime = ''August-October'',
           waterRequirement = ''High'', commonDiseases = [''Corn Borer'', ''Leaf Blight''],
           tips = ''Requires warm weather and regular watering''\<rparr> =
     \<lparr>text = cornFactSheet, confidence = 0.9, keyboard = None\<rparr>"
  by (simp add: cropFactSheet_def cornFactSheet_def toUpperCase_def toUpperChar_def charAt_def slice_def)

lemma cropPrompt_includes_crop: "str_includes (cropPrompt l q c s) s"
  unfolding cropPrompt_def
  by (intro includes_append_self includes_append_left)

lemma corn_generate_down:
  assumes "model env (cropPrompt (or_else (profileLocation user) ''Kenya'') cornQuestion
                     (or_else (cropsOfInterest_joined user) ''general crops'') ''corn'') = Inl e"
  shows "generateResponse env Crops (extractEntities cornQuestion) cornQuestion user =
     (\<lparr>text = cornFactSheet, confidence = 0.9, keyboard = None\<rparr>,
      [cropPrompt (or_else (profileLocation user) ''Kenya'') cornQuestion
                     (or_else (cropsOfInterest_joined user) ''general crops'') ''corn''])"
  using assms
  by (simp add: generateResponse_def generateCropResponse_def cornQuestion_entities
      cornQuestion_best corn_in_database corn_sheet Let_def)

lemma corn_generate_prompts:
  "snd (generateResponse env Crops (extractEntities cornQuestion) cornQuestion user) =
      [cropPrompt (or_else (profileLocation user) ''Kenya'') cornQuestion
                     (or_else (cropsOfInterest_joined user) ''general crops'') ''corn'']"
  by (simp add: generateResponse_def generateCropResponse_def cornQuestion_entities
      cornQuestion_best Let_def split: sum.splits)

lemma corn_generate_live:
  assumes "model env (cropPrompt (or_else (profileLocation user) ''Kenya'') cornQuestion
                     (or_else (cropsOfInterest_joined user) ''general crops'') ''corn'') = Inr t"
  shows "fst (generateResponse env Crops (extractEntities cornQuestion) cornQuestion user) =
     \<lparr>text = t, confidence = 0.9,
       keyboard = Some
                    [[([CHR 0xF0, CHR 0x9F, CHR 0x8C, CHR 0xA4, CHR 0xEF, CHR 0xB8, CHR 0x8F] @ '' Weather Info'', ''weather_info''),
                      ([CHR 0xF0, CHR 0x9F, CHR 0x93, CHR 0x88] @ '' Market Prices'', ''market_info'')],
                     [([CHR 0xF0, CHR 0x9F, CHR 0x92, CHR 0xA1] @ '' More Tips'', ''farming_tips'')]]\<rparr>"
  using assms
  by (simp add: generateResponse_def generateCropResponse_def cornQuestion_entities
      cornQuestion_best Let_def)

lemma cropPrompt_includes_question: "str_includes (cropPrompt l q c s) q"
  unfolding cropPrompt_def
  by (intro includes_append_self includes_append_left)

lemma cornFactSheet_not_static:
  "\<lparr>text = cornFactSheet, confidence = 0.9, keyboard = None\<rparr> \<noteq> cropStaticFallback"
  by (simp add: cropStaticFallback_def)

text \<open>
  C4, as the code has it. The text \<open>What's the best time to plant corn?\<close> is classified
  as crops and yields the single entity crop corn. \<open>generateResponse\<close> hands one prompt
  to the backend: the crop template around the place of the user (or Kenya), the
  question, the crops of the user (or general crops) and the crop \<open>corn\<close>; the prompt
  contains the question and \<open>corn\<close>. When the backend answers, the response is that
  answer, with confidence 0.9 and the keyboard of weather, market and tips. When the
  backend raises, the response is the fact sheet of corn rendered from \<open>cropDatabase\<close>,
  with confidence 0.9 and no keyboard: the crop entity is in the table, so the table is
  the fallback.
\<close>

theorem corn_question_end_to_end:
  "detectIntent cornQuestion = Crops
   \<and> extractEntities cornQuestion = [\<lparr>type = ''crop'', value = ''corn''\<rparr>]
   \<and> (let prompt = cropPrompt (or_else (profileLocation user) ''Kenya'') cornQuestion
                      (or_else (cropsOfInterest_joined user) ''general crops'') ''corn''
      in snd (generateResponse env Crops (extractEntities cornQuestion) cornQuestion user) = [prompt]
         \<and> str_includes prompt ''corn''
         \<and> str_includes prompt cornQuestion
         \<and> (\<forall>t. model env prompt = Inr t \<longrightarrow>
               fst (generateResponse env Crops (extractEntities cornQuestion) cornQuestion user) =
                 \<lparr>text = t, confidence = 0.9,
                   keyboard = Some
                    [[([CHR 0xF0, CHR 0x9F, CHR 0x8C, CHR 0xA4, CHR 0xEF, CHR 0xB8, CHR 0x8F] @ '' Weather Info'', ''weather_info''),
                      ([CHR 0xF0, CHR 0x9F, CHR 0x93, CHR 0x88] @ '' Market Prices'', ''market_info'')],
                     [([CHR 0xF0, CHR 0x9F, CHR 0x92, CHR 0xA1] @ '' More Tips'', ''farming_tips'')]]\<rparr>)
         \<and> ((\<exists>e. model env prompt = Inl e) \<longrightarrow>
               fst (generateResponse env Crops (extractEntities cornQuestion) cornQuestion user) =
                 \<lparr>text = cornFactSheet, confidence = 0.9, keyboard = None\<rparr>))"
proof -
  let ?prompt = "cropPrompt (or_else (profileLocation user) ''Kenya'') cornQuestion
                   (or_else (cropsOfInterest_joined user) ''general crops'') ''corn''"
  have down: "(\<exists>e. model env ?prompt = Inl e) \<longrightarrow>
      fst (generateResponse env Crops (extractEntities cornQuestion) cornQuestion user) =
        \<lparr>text = cornFactSheet, confidence = 0.9, keyboard = None\<rparr>"
    using corn_generate_down [of env user] by auto
  have live: "\<forall>t. model env ?prompt = Inr t \<longrightarrow>
      fst (generateResponse env Crops (extractEntities cornQuestion) cornQuestion user) =
        \<lparr>text = t, confidence = 0.9,
          keyboard = Some
                    [[([CHR 0xF0, CHR 0x9F, CHR 0x8C, CHR 0xA4, CHR 0xEF, CHR 0xB8, CHR 0x8F] @ '' Weather Info'', ''weather_info''),
                      ([CHR 0xF0, CHR 0x9F, CHR 0x93, CHR 0x88] @ '' Market Prices'', ''market_info'')],
                     [([CHR 0xF0, CHR 0x9F, CHR 0x92, CHR 0xA1] @ '' More Tips'', ''farming_tips'')]]\<rparr>"
    using corn_generate_live [of env user] by blast
  show ?thesis
    unfolding Let_def
    by (intro conjI cornQuestion_intent cornQuestion_entities corn_generate_prompts
        cropPrompt_includes_crop cropPrompt_includes_question live down)
qed

theorem corn_question_end_to_end_witness:
  "detectIntent cornQuestion = Crops
   \<and> fst (generateResponse backendDown Crops (extractEntities cornQuestion) cornQuestion sampleUser) =
       \<lparr>text = cornFactSheet, confidence = 0.9, keyboard = None\<rparr>
   \<and> fst (generateResponse backendUp Crops (extractEntities cornQuestion) cornQuestion sampleUser) =
       \<lparr>text = ''Plant at the onset of the long rains.'', confidence = 0.9,
         keyboard = Some
                    [[([CHR 0xF0, CHR 0x9F, CHR 0x8C, CHR 0xA4, CHR 0xEF, CHR 0xB8, CHR 0x8F] @ '' Weather Info'', ''weather_info''),
                      ([CHR 0xF0, CHR 0x9F, CHR 0x93, CHR 0x88] @ '' Market Prices'', ''market_info'')],
                     [([CHR 0xF0, CHR 0x9F, CHR 0x92, CHR 0xA1] @ '' More Tips'', ''farming_tips'')]]\<rparr>"
proof -
  have down: "\<And>p. \<exists>e. model backendDown p = Inl e"
    by (simp add: backendDown_def)
  have up: "\<And>p. model backendUp p = Inr ''Plant at the onset of the long rains.''"
    by (simp add: backendUp_def)
  show ?thesis
    using corn_question_end_to_end [of sampleUser backendDown]
      corn_question_end_to_end [of sampleUser backendUp] down up
    unfolding Let_def
    by blast
qed

text \<open>
  With the backend down, the response to the corn question is not the static template
  that asks the user to name a crop; with the backend up, it is the answer of the backend.
\<close>

theorem corn_backend_down_counterexample:
  "fst (generateResponse backendDown Crops (extractEntities cornQuestion) cornQuestion sampleUser)
     \<noteq> cropStaticFallback
   \<and> text (fst (generateResponse backendUp Crops (extractEntities cornQuestion) cornQuestion
                  sampleUser)) = ''Plant at the onset of the long rains.''"
proof -
  have "model backendDown
          (cropPrompt (or_else (profileLocation sampleUser) ''Kenya'') cornQuestion
             (or_else (cropsOfInterest_joined sampleUser) ''general crops'') ''corn'') =
        Inl (Error ''service unavailable'')"
    by (simp add: backendDown_def)
  then have "fst (generateResponse backendDown Crops (extractEntities cornQuestion) cornQuestion
                   sampleUser) =
             \<lparr>text = cornFactSheet, confidence = 0.9, keyboard = None\<rparr>"
    by (simp add: corn_generate_down)
  then have a: "fst (generateResponse backendDown Crops (extractEntities cornQuestion)
                      cornQuestion sampleUser) \<noteq> cropStaticFallback"
    by (simp add: cornFactSheet_not_static)
  have "model backendUp
          (cropPrompt (or_else (profileLocation sampleUser) ''Kenya'') cornQuestion
             (or_else (cropsOfInterest_joined sampleUser) ''general crops'') ''corn'') =
        Inr ''Plant at the onset of the long rains.''"
    by (simp add: backendUp_def)
  then have b: "text (fst (generateResponse backendUp Crops (extractEntities cornQuestion)
                            cornQuestion sampleUser)) = ''Plant at the onset of the long rains.''"
    by (simp add: corn_generate_live)
  from a b show ?thesis
    by (rule conjI)
qed

section \<open>Notification jobs\<close>

lemma successfulSends_append: "successfulSends (a @ b) = successfulSends a @ successfulSends b"
  by (induction a rule: successfulSends.induct) auto

lemma loggedFailures_append: "loggedFailures (a @ b) = loggedFailures a @ loggedFailures b"
  by (induction a rule: loggedFailures.induct) auto

lemma processed_append: "processed (a @ b) = processed a @ processed b"
  by (induction a rule: processed.induct) auto

lemma handedToChannel_append: "handedToChannel (a @ b) = handedToChannel a @ handedToChannel b"
  by (induction a rule: handedToChannel.induct) auto

lemma deliver_outcome:
  "successfulSends (deliver w job u (render u)) = (if fails w render u then [] else [telegramId u])"
  "loggedFailures (deliver w job u (render u)) = (if fails w render u then [telegramId u] else [])"
  "processed (deliver w job u (render u)) = [telegramId u]"
  by (auto simp: deliver_def fails_def split: sum.splits option.splits)

lemma deliver_handed:
  "handedToChannel (deliver w job u r) = (case r of Inl e \<Rightarrow> [] | Inr m \<Rightarrow> [(telegramId u, m)])"
  by (auto simp: deliver_def split: sum.splits option.splits)

lemma hasCoordinates_always: "hasCoordinates u"
  by (simp add: hasCoordinates_def truthy_object_def)

lemma weather_loop_outcome:
  "successfulSends (sendWeatherUpdates_loop w us) =
     map telegramId (filter (\<lambda>u. \<not> fails w (weatherMessage w) u) us)"
  "loggedFailures (sendWeatherUpdates_loop w us) =
     map telegramId (filter (fails w (weatherMessage w)) us)"
  "processed (sendWeatherUpdates_loop w us) = map telegramId us"
  by (induction us)
    (simp_all add: successfulSends_append loggedFailures_append processed_append deliver_outcome
      hasCoordinates_always)


lemma weather_query:
  "filter (\<lambda>u. weather (notificationSettings (botData u)) \<and> \<not> isBanned (permissions u)) us =
   filter weatherQuery us"
  by (auto simp: weatherQuery_def intro: filter_cong)



lemma weather_job_outcome:
  assumes "down st = None"
  shows "successfulSends (sendWeatherUpdates w st) =
           map telegramId (filter (\<lambda>u. \<not> fails w (weatherMessage w) u) (filter weatherQuery (users st)))"
    and "loggedFailures (sendWeatherUpdates w st) =
           map telegramId (filter (fails w (weatherMessage w)) (filter weatherQuery (users st)))"
    and "processed (sendWeatherUpdates w st) = map telegramId (filter weatherQuery (users st))"
  using assms
  by (simp_all add: sendWeatherUpdates_def User_find_def weather_loop_outcome weather_query
      del: filter_filter)




lemma sample_flags:
  "weatherQuery locatedUser" "weatherQuery unlocatedUser" "weatherQuery blockedUser"
  "\<not> weatherQuery bannedUser"
  "located locatedUser" "\<not> located unlocatedUser" "located blockedUser" "\<not> located bannedUser"
  "marketEligible locatedUser" "marketEligible blockedUser" "\<not> marketEligible unlocatedUser"
  "\<not> marketEligible bannedUser"
  "telegramId locatedUser = 1001" "telegramId unlocatedUser = 1002"
  "telegramId blockedUser = 1003" "telegramId bannedUser = 1004"
  by (simp_all add: weatherQuery_def located_def marketEligible_def locatedUser_def
      blockedUser_def unlocatedUser_def bannedUser_def sampleUser_def)

lemma sample_eligible:
  "weatherEligible locatedUser" "\<not> weatherEligible unlocatedUser" "weatherEligible blockedUser"
  "\<not> weatherEligible bannedUser"
  by (simp_all add: weatherEligible_def sample_flags)


lemma sample_users:
  "down sampleStore = None" "users sampleStore = [locatedUser, unlocatedUser, blockedUser, bannedUser]"
  "down locatedStore = None" "users locatedStore = [locatedUser, blockedUser, bannedUser]"
  "down storeDown = Some (Error ''connection refused'')"
  by (simp_all add: sampleStore_def locatedStore_def storeDown_def)


lemma weather_loop_handed:
  "handedToChannel (sendWeatherUpdates_loop w us) =
     List.map_filter
       (\<lambda>u. case weatherMessage w u of Inl e \<Rightarrow> None | Inr m \<Rightarrow> Some (telegramId u, m)) us"
  by (induction us)
    (auto simp: handedToChannel_append deliver_handed map_filter_simps hasCoordinates_always
      split: sum.splits)

lemma map_filter_filter:
  "List.map_filter f (filter P xs) = List.map_filter (\<lambda>x. if P x then f x else None) xs"
  by (induction xs) (auto simp: map_filter_simps split: option.splits)

lemma weather_job_handed:
  "handedToChannel (sendWeatherUpdates w st) =
     (case down st of
        Some e \<Rightarrow> []
      | None \<Rightarrow>
          List.map_filter
            (\<lambda>u. if weatherQuery u
                 then (case weatherMessage w u of Inl e \<Rightarrow> None | Inr m \<Rightarrow> Some (telegramId u, m))
                 else None) (users st))"
proof (cases "down st")
  case None
  then show ?thesis
    by (simp add: sendWeatherUpdates_def User_find_def weather_loop_handed weather_query
        map_filter_filter del: filter_filter)
next
  case (Some e)
  then show ?thesis
    by (simp add: sendWeatherUpdates_def User_find_def)
qed






text \<open>
  The guard of the weather loop holds nobody back. The second account of the sample
  directory has no coordinates and is not eligible, and the weather job hands a message
  for it to the delivery channel all the same; when the weather service is down, the
  failure logged for it is one of the failures of the run.
\<close>

lemma unlocated_account_is_processed:
  "\<not> located unlocatedUser \<and> \<not> weatherEligible unlocatedUser
   \<and> handedToChannel (sendWeatherUpdates sampleWorld sampleStore) =
       [(1001, ''Weather for Wanjiru''), (1002, ''Weather for Wanjiru''),
        (1003, ''Weather for Wanjiru'')]
   \<and> loggedFailures (sendWeatherUpdates weatherDown sampleStore) = [1001, 1002, 1003]"
proof -
  have n: "firstName locatedUser = ''Wanjiru''" "firstName unlocatedUser = ''Wanjiru''"
    "firstName blockedUser = ''Wanjiru''"
    by (simp_all add: locatedUser_def unlocatedUser_def blockedUser_def sampleUser_def)
  have r: "\<And>u. weatherMessage sampleWorld u = Inr (''Weather for '' @ firstName u)"
    by (simp add: sampleWorld_def)
  have f: "\<And>u. fails weatherDown (weatherMessage weatherDown) u"
    by (simp add: fails_def weatherDown_def sampleWorld_def)
  have "handedToChannel (sendWeatherUpdates sampleWorld sampleStore) =
       [(1001, ''Weather for Wanjiru''), (1002, ''Weather for Wanjiru''),
        (1003, ''Weather for Wanjiru'')]"
    by (simp add: weather_job_handed sample_users sample_flags r n map_filter_simps)
  moreover have "loggedFailures (sendWeatherUpdates weatherDown sampleStore) = [1001, 1002, 1003]"
    by (simp add: weather_job_outcome sample_users sample_flags f)
  ultimately show ?thesis
    by (simp add: sample_flags sample_eligible)
qed

section \<open>The cleanup job\<close>

lemma set_expired: "set (expired uid cs) \<subseteq> set (mine uid cs)"
  unfolding expired_def by (metis set_drop_subset set_sort)

lemma set_mine: "set (mine uid cs) = {c \<in> set cs. userId c = uid}"
  by (auto simp: mine_def)

lemma trim_removes_expired:
  assumes "distinct (map id' cs)"
  shows "trimConversations uid cs = filter (\<lambda>c. c \<notin> set (expired uid cs)) cs"
proof (cases "expired uid cs = []")
  case True
  then show ?thesis
    by (simp add: trimConversations_def expired_def mine_def Let_def)
next
  case False
  have inj: "inj_on id' (set cs)"
    using assms by (simp add: distinct_map)
  have sub: "set (expired uid cs) \<subseteq> set cs"
    using set_expired [of uid cs] by (auto simp: set_mine)
  have "id' c \<in> id' ` set (expired uid cs) \<longleftrightarrow> c \<in> set (expired uid cs)" if "c \<in> set cs" for c
    using inj sub that by (auto dest: inj_onD)
  then have "filter (\<lambda>c. id' c \<notin> set (map id' (expired uid cs))) cs =
             filter (\<lambda>c. c \<notin> set (expired uid cs)) cs"
    by (intro filter_cong) auto
  with False show ?thesis
    by (simp add: trimConversations_def expired_def mine_def Let_def)
qed

lemma trim_distinct:
  assumes "distinct (map id' cs)"
  shows "distinct (map id' (trimConversations uid cs))"
  using assms by (simp add: trim_removes_expired distinct_map_filter)

lemma trim_subset: "set (trimConversations uid cs) \<subseteq> set cs"
  by (auto simp: trimConversations_def Let_def)

lemma mine_trim_other:
  assumes "distinct (map id' cs)" and "other \<noteq> uid"
  shows "mine other (trimConversations uid cs) = mine other cs"
proof -
  have "c \<notin> set (expired uid cs)" if "userId c = other" for c
    using set_expired [of uid cs] assms(2) that by (auto simp: set_mine)
  then have "filter (\<lambda>c. userId c = other \<and> c \<notin> set (expired uid cs)) cs =
             filter (\<lambda>c. userId c = other) cs"
    by (intro filter_cong) auto
  then show ?thesis
    using assms(1) by (simp add: trim_removes_expired mine_def conj_commute)
qed

lemma mine_trim_same:
  assumes "distinct (map id' cs)"
  shows "mine uid (trimConversations uid cs) =
           filter (\<lambda>c. c \<notin> set (expired uid cs)) (mine uid cs)"
  using assms by (simp add: trim_removes_expired mine_def conj_commute)

lemma distinct_mine:
  assumes "distinct (map id' cs)"
  shows "distinct (mine uid cs)"
  using assms by (simp add: mine_def distinct_map)

lemma keep_newest:
  fixes xs :: "conversation list"
  assumes "distinct xs"
  defines "s \<equiv> sort_key (\<lambda>c. - createdAt c) xs"
  shows "set (filter (\<lambda>c. c \<notin> set (drop n s)) xs) = set (take n s)"
    and "length (filter (\<lambda>c. c \<notin> set (drop n s)) xs) = min n (length xs)"
    and "\<forall>k \<in> set (take n s). \<forall>r \<in> set (drop n s). createdAt r \<le> createdAt k"
proof -
  have ds: "distinct s" and ss: "set s = set xs" and ls: "length s = length xs"
    using assms by (simp_all add: s_def)
  have split: "s = take n s @ drop n s"
    by simp
  have disj: "set (take n s) \<inter> set (drop n s) = {}"
    using ds split by (metis distinct_append)
  have un: "set (take n s) \<union> set (drop n s) = set xs"
    using ss split by (metis set_append)
  show eq: "set (filter (\<lambda>c. c \<notin> set (drop n s)) xs) = set (take n s)"
    using disj un by auto
  have "distinct (filter (\<lambda>c. c \<notin> set (drop n s)) xs)"
    using assms(1) by simp
  then have "length (filter (\<lambda>c. c \<notin> set (drop n s)) xs) = card (set (take n s))"
    using eq by (metis distinct_card)
  also have "\<dots> = length (take n s)"
    using ds by (simp add: distinct_card)
  finally show "length (filter (\<lambda>c. c \<notin> set (drop n s)) xs) = min n (length xs)"
    using ls by simp
  have "sorted (map (\<lambda>c. - createdAt c) s)"
    by (simp add: s_def)
  then have "sorted (map (\<lambda>c. - createdAt c) (take n s) @ map (\<lambda>c. - createdAt c) (drop n s))"
    by (metis split map_append)
  then show "\<forall>k \<in> set (take n s). \<forall>r \<in> set (drop n s). createdAt r \<le> createdAt k"
    by (auto simp: sorted_append)
qed

lemma trim_keeps_newest:
  assumes "distinct (map id' cs)"
  shows "length (mine uid (trimConversations uid cs)) = min 1000 (length (mine uid cs))"
    and "\<forall>k \<in> set (mine uid (trimConversations uid cs)).
           \<forall>r \<in> set (mine uid cs) - set (mine uid (trimConversations uid cs)).
             createdAt r \<le> createdAt k"
proof -
  let ?s = "sort_key (\<lambda>c. - createdAt c) (mine uid cs)"
  have d: "distinct (mine uid cs)"
    using assms by (rule distinct_mine)
  have m: "mine uid (trimConversations uid cs) =
             filter (\<lambda>c. c \<notin> set (drop 1000 ?s)) (mine uid cs)"
    using assms by (simp add: mine_trim_same expired_def)
  show "length (mine uid (trimConversations uid cs)) = min 1000 (length (mine uid cs))"
    using keep_newest(2) [OF d, of 1000] m by simp
  have kept: "set (mine uid (trimConversations uid cs)) = set (take 1000 ?s)"
    using keep_newest(1) [OF d, of 1000] m by simp
  have "set (mine uid cs) - set (take 1000 ?s) \<subseteq> set (drop 1000 ?s)"
  proof -
    have "set (mine uid cs) = set (take 1000 ?s @ drop 1000 ?s)"
      by simp
    then show ?thesis
      by (metis Diff_subset_conv set_append order_refl)
  qed
  then show "\<forall>k \<in> set (mine uid (trimConversations uid cs)).
           \<forall>r \<in> set (mine uid cs) - set (mine uid (trimConversations uid cs)).
             createdAt r \<le> createdAt k"
    using keep_newest(3) [OF d, of 1000] kept by blast
qed

lemma trim_short:
  assumes "length (mine uid cs) \<le> 1000"
  shows "trimConversations uid cs = cs"
  using assms by (simp add: trimConversations_def mine_def Let_def)

lemma loop_distinct:
  "distinct (map id' cs) \<Longrightarrow> distinct (map id' (cleanupOldData_loop us cs))"
  by (induction us arbitrary: cs) (simp_all add: trim_distinct)

lemma loop_subset: "set (cleanupOldData_loop us cs) \<subseteq> set cs"
proof (induction us arbitrary: cs)
  case Nil
  then show ?case by simp
next
  case (Cons u us)
  have "set (cleanupOldData_loop us (trimConversations (telegramId u) cs))
          \<subseteq> set (trimConversations (telegramId u) cs)"
    by (rule Cons.IH)
  then show ?case
    using trim_subset [of "telegramId u" cs] by auto
qed

lemma loop_untouched:
  assumes "distinct (map id' cs)" and "uid \<notin> telegramId ` set us"
  shows "mine uid (cleanupOldData_loop us cs) = mine uid cs"
  using assms
proof (induction us arbitrary: cs)
  case Nil
  then show ?case by simp
next
  case (Cons u us)
  then have "mine uid (cleanupOldData_loop us (trimConversations (telegramId u) cs)) =
             mine uid (trimConversations (telegramId u) cs)"
    by (simp add: trim_distinct)
  also have "\<dots> = mine uid cs"
    using Cons.prems by (simp add: mine_trim_other)
  finally show ?case by simp
qed

lemma trim_twice:
  assumes "distinct (map id' cs)"
  shows "trimConversations uid (trimConversations uid cs) = trimConversations uid cs"
  using assms by (simp add: trim_short trim_keeps_newest(1))

lemma mine_trim_commute:
  assumes "distinct (map id' cs)" and "other \<noteq> uid"
  shows "mine uid (trimConversations uid (trimConversations other cs)) =
         mine uid (trimConversations uid cs)"
proof -
  have d: "distinct (map id' (trimConversations other cs))"
    using assms(1) by (rule trim_distinct)
  have same: "mine uid (trimConversations other cs) = mine uid cs"
    using assms by (simp add: mine_trim_other)
  show ?thesis
    by (simp add: mine_trim_same [OF d] mine_trim_same [OF assms(1)] expired_def same)
qed

lemma loop_trims:
  assumes "distinct (map id' cs)" and "uid \<in> telegramId ` set us"
  shows "mine uid (cleanupOldData_loop us cs) = mine uid (trimConversations uid cs)"
  using assms
proof (induction us arbitrary: cs)
  case Nil
  then show ?case by simp
next
  case (Cons u us)
  let ?cs1 = "trimConversations (telegramId u) cs"
  have d1: "distinct (map id' ?cs1)"
    using Cons.prems(1) by (rule trim_distinct)
  show ?case
  proof (cases "uid \<in> telegramId ` set us")
    case True
    then have "mine uid (cleanupOldData_loop us ?cs1) = mine uid (trimConversations uid ?cs1)"
      using Cons.IH d1 by blast
    also have "\<dots> = mine uid (trimConversations uid cs)"
    proof (cases "telegramId u = uid")
      case True
      then show ?thesis
        using Cons.prems(1) by (simp add: trim_twice)
    next
      case False
      then show ?thesis
        using Cons.prems(1) by (simp add: mine_trim_commute)
    qed
    finally show ?thesis by simp
  next
    case False
    with Cons.prems(2) have u: "telegramId u = uid"
      by auto
    have "mine uid (cleanupOldData_loop us ?cs1) = mine uid ?cs1"
      using d1 False by (rule loop_untouched)
    then show ?thesis
      using u by simp
  qed
qed

lemma cleanup_conversations:
  assumes "down st = None"
  shows "conversations (fst (cleanupOldData st now)) =
           cleanupOldData_loop (users st) (conversations st)"
    and "agriculturalData (fst (cleanupOldData st now)) =
           filter (\<lambda>d. now - 2592000000 \<le> createdAt d) (agriculturalData st)"
  using assms by (simp_all add: cleanupOldData_def Let_def not_less)

lemma mine_subset_after_loop:
  "set (mine uid (cleanupOldData_loop us cs)) \<subseteq> set (mine uid cs)"
  using loop_subset [of us cs] by (auto simp: set_mine)

text \<open>
  C5, as the code has it. The thirty-day cutoff applies to the agricultural data: one
  run removes exactly the documents created before the cutoff and keeps a document
  created at the cutoff. Conversations are trimmed by count, not by age: for every user
  of the directory the 1000 newest conversations of that user remain and the others are
  removed, so no removed conversation of a user is newer than one that was kept;
  conversations of no user of the directory are left alone, and nothing is added.
\<close>

theorem cleanup_trims_by_count:
  "down st = None \<and> distinct (map id' (conversations st)) \<longrightarrow>
     agriculturalData (fst (cleanupOldData st now)) =
       filter (\<lambda>d. now - 30 * 24 * 60 * 60 * 1000 \<le> createdAt d) (agriculturalData st)
     \<and> set (conversations (fst (cleanupOldData st now))) \<subseteq> set (conversations st)
     \<and> (\<forall>u \<in> set (users st).
          length (mine (telegramId u) (conversations (fst (cleanupOldData st now)))) =
            min 1000 (length (mine (telegramId u) (conversations st)))
          \<and> (\<forall>k \<in> set (mine (telegramId u) (conversations (fst (cleanupOldData st now)))).
               \<forall>r \<in> set (mine (telegramId u) (conversations st))
                     - set (mine (telegramId u) (conversations (fst (cleanupOldData st now)))).
                 createdAt r \<le> createdAt k))
     \<and> (\<forall>c \<in> set (conversations st).
          userId c \<notin> telegramId ` set (users st) \<longrightarrow>
            c \<in> set (conversations (fst (cleanupOldData st now))))"
  (is "_ \<longrightarrow> ?concl")
proof (intro impI)
  assume a: "down st = None \<and> distinct (map id' (conversations st))"
  then have up: "down st = None" and d: "distinct (map id' (conversations st))"
    by simp_all
  let ?after = "conversations (fst (cleanupOldData st now))"
  note cs = cleanup_conversations(1) [OF up, of now]
  have data: "agriculturalData (fst (cleanupOldData st now)) =
       filter (\<lambda>d. now - 30 * 24 * 60 * 60 * 1000 \<le> createdAt d) (agriculturalData st)"
    using cleanup_conversations(2) [OF up, of now] by simp
  have sub: "set ?after \<subseteq> set (conversations st)"
    unfolding cs by (rule loop_subset)
  have count: "length (mine (telegramId u) ?after) =
                 min 1000 (length (mine (telegramId u) (conversations st)))
               \<and> (\<forall>k \<in> set (mine (telegramId u) ?after).
                    \<forall>r \<in> set (mine (telegramId u) (conversations st))
                          - set (mine (telegramId u) ?after).
                      createdAt r \<le> createdAt k)"
    if u: "u \<in> set (users st)" for u
  proof -
    have t: "mine (telegramId u) ?after =
             mine (telegramId u) (trimConversations (telegramId u) (conversations st))"
      unfolding cs using d u by (intro loop_trims) auto
    show ?thesis
      unfolding t using trim_keeps_newest [OF d, of "telegramId u"] by blast
  qed
  have others: "c \<in> set ?after"
    if c: "c \<in> set (conversations st)" and n: "userId c \<notin> telegramId ` set (users st)" for c
  proof -
    have "mine (userId c) (cleanupOldData_loop (users st) (conversations st)) =
          mine (userId c) (conversations st)"
      using d n by (intro loop_untouched)
    moreover have "c \<in> set (mine (userId c) (conversations st))"
      using c by (simp add: set_mine)
    ultimately have "c \<in> set (mine (userId c) (cleanupOldData_loop (users st) (conversations st)))"
      by simp
    then show ?thesis
      unfolding cs by (simp add: set_mine)
  qed
  from data sub count others show ?concl
    by blast
qed

lemma chatStore_cleanup:
  "conversations (fst (cleanupOldData chatStore hundredDays)) = [oldConversation, recentConversation]"
  by (simp add: cleanupOldData_def chatStore_def sampleStore_def hundredDays_def Let_def
      trimConversations_def oldConversation_def recentConversation_def sample_flags)

lemma burst_expired: "expired 1001 (map burst [0..<1001]) = [burst 1000]"
proof -
  have m: "mine 1001 (map burst [0..<1001]) = map burst [0..<1001]"
    by (simp add: mine_def burst_def)
  have "sorted (map (\<lambda>c. - createdAt c) (map burst [0..<1001]))"
    by (simp add: sorted_map burst_def sorted_wrt_iff_nth_less)
  then have "sort_key (\<lambda>c. - createdAt c) (map burst [0..<1001]) = map burst [0..<1001]"
    by (rule sort_key_id_if_sorted)
  then show ?thesis
    by (simp add: expired_def m drop_map)
qed

lemma burst_distinct: "distinct (map id' (map burst [0..<1001]))"
  by (simp add: distinct_map inj_on_def burst_def)

theorem cleanup_trims_by_count_witness:
  "down chatStore = None \<and> distinct (map id' (conversations chatStore))
   \<and> agriculturalData (fst (cleanupOldData chatStore hundredDays)) = [\<lparr>id' = 8, createdAt = 6048000000\<rparr>]
   \<and> length (mine 1001 (conversations (fst (cleanupOldData chatStore hundredDays)))) = 2
   \<and> down burstStore = None \<and> distinct (map id' (conversations burstStore))
   \<and> length (mine 1001 (conversations burstStore)) = 1001
   \<and> length (mine 1001 (conversations (fst (cleanupOldData burstStore hundredDays)))) = 1000"
proof -
  have up: "down chatStore = None"
    and us: "users chatStore = [locatedUser, unlocatedUser, blockedUser, bannedUser]"
    and cs: "conversations chatStore = [oldConversation, recentConversation]"
    and ad: "agriculturalData chatStore = [\<lparr>id' = 7, createdAt = 0\<rparr>, \<lparr>id' = 8, createdAt = 6048000000\<rparr>]"
    by (simp_all add: chatStore_def sampleStore_def)
  have d: "distinct (map id' (conversations chatStore))"
    by (simp add: cs oldConversation_def recentConversation_def)
  have m: "mine 1001 (conversations chatStore) = [oldConversation, recentConversation]"
    by (simp add: cs mine_def oldConversation_def recentConversation_def)
  have u: "locatedUser \<in> set (users chatStore)"
    by (simp add: us)
  have bup: "down burstStore = None"
    and bus: "users burstStore = [locatedUser, unlocatedUser, blockedUser, bannedUser]"
    and bcs: "conversations burstStore = map burst [0..<1001]"
    by (simp_all add: burstStore_def sampleStore_def)
  have bd: "distinct (map id' (conversations burstStore))"
    unfolding bcs by (rule burst_distinct)
  have bm: "length (mine 1001 (conversations burstStore)) = 1001"
    by (simp add: bcs mine_def burst_def)
  have bu: "locatedUser \<in> set (users burstStore)"
    by (simp add: bus)
  have "length (mine (telegramId locatedUser) (conversations (fst (cleanupOldData chatStore hundredDays)))) =
          min 1000 (length (mine (telegramId locatedUser) (conversations chatStore)))"
    using cleanup_trims_by_count [of chatStore hundredDays] up d u by blast
  moreover have "agriculturalData (fst (cleanupOldData chatStore hundredDays)) =
       filter (\<lambda>d. hundredDays - 30 * 24 * 60 * 60 * 1000 \<le> createdAt d) (agriculturalData chatStore)"
    using cleanup_trims_by_count [of chatStore hundredDays] up d by blast
  moreover have "length (mine (telegramId locatedUser) (conversations (fst (cleanupOldData burstStore hundredDays)))) =
          min 1000 (length (mine (telegramId locatedUser) (conversations burstStore)))"
    using cleanup_trims_by_count [of burstStore hundredDays] bup bd bu by blast
  ultimately show ?thesis
    using up d bup bd bm by (simp add: sample_flags m ad hundredDays_def)
qed

lemma burst_trimmed: "burst 1000 \<notin> set (conversations (fst (cleanupOldData burstStore hundredDays)))"
proof -
  have "burst 1000 \<notin> set (trimConversations 1001 (map burst [0..<1001]))"
    by (simp add: trim_removes_expired [OF burst_distinct] burst_expired)
  moreover have "conversations (fst (cleanupOldData burstStore hundredDays)) =
    cleanupOldData_loop [unlocatedUser, blockedUser, bannedUser] (trimConversations 1001 (map burst [0..<1001]))"
    by (simp add: cleanupOldData_def burstStore_def sampleStore_def Let_def sample_flags)
  ultimately show ?thesis
    using loop_subset [of "[unlocatedUser, blockedUser, bannedUser]" "trimConversations 1001 (map burst [0..<1001])"]
    by auto
qed

text \<open>
  A conversation a hundred days old, far beyond the thirty-day cutoff, is still there
  after a run of the cleanup job; and after a burst of 1001 conversations within one
  second, the run removes a conversation that is one second old.
\<close>

theorem cleanup_ignores_age_counterexample:
  "createdAt oldConversation < hundredDays - 30 * 24 * 60 * 60 * 1000
   \<and> oldConversation \<in> set (conversations chatStore)
   \<and> oldConversation \<in> set (conversations (fst (cleanupOldData chatStore hundredDays)))
   \<and> hundredDays - 30 * 24 * 60 * 60 * 1000 < createdAt (burst 1000)
   \<and> burst 1000 \<in> set (conversations burstStore)
   \<and> burst 1000 \<notin> set (conversations (fst (cleanupOldData burstStore hundredDays)))"
proof -
  have "createdAt oldConversation < hundredDays - 30 * 24 * 60 * 60 * 1000"
    by (simp add: oldConversation_def hundredDays_def)
  moreover have "oldConversation \<in> set (conversations chatStore)"
    by (simp add: chatStore_def)
  moreover have "oldConversation \<in> set (conversations (fst (cleanupOldData chatStore hundredDays)))"
    by (simp add: chatStore_cleanup)
  moreover have "hundredDays - 30 * 24 * 60 * 60 * 1000 < createdAt (burst 1000)"
    by (simp add: burst_def hundredDays_def)
  moreover have "burst 1000 \<in> set (conversations burstStore)"
    by (simp add: burstStore_def)
  ultimately show ?thesis
    using burst_trimmed by blast
qed

section \<open>Login of a banned account\<close>

lemma telegramAuth_banned:
  assumes "down st = None" and "find (\<lambda>u. telegramId u = uid) (users st) = Some u"
    and "isBanned (permissions u)"
  shows "telegramAuth st now uid = (st, AccessForbidden (banReason (permissions u)))"
  using assms by (simp add: telegramAuth_def)

text \<open>
  C9 at a banned account. The login of the banned account 1004 at time 5000 is rejected
  with 403 and the ban reason, and the stored account has changed: its last interaction
  and its last active time, 0 before the call, are 5000 after it. The middleware of the
  other routes, called for the same account, rejects it and leaves the store as it was.
\<close>

theorem banned_login_touches_account:
  "snd (telegramLogin loginService bannedStore 5000 bannedLogin) = AccountBanned (Some ''spam'')
   \<and> map (\<lambda>u. (isBanned (permissions u), lastInteraction (botData u), lastActiveTime (analytics u)))
        (users bannedStore) = [(True, 0, 0)]
   \<and> map (\<lambda>u. (isBanned (permissions u), lastInteraction (botData u), lastActiveTime (analytics u)))
        (users (fst (telegramLogin loginService bannedStore 5000 bannedLogin))) = [(True, 5000, 5000)]
   \<and> fst (telegramLogin loginService bannedStore 5000 bannedLogin) \<noteq> bannedStore
   \<and> telegramAuth bannedStore 5000 1004 = (bannedStore, AccessForbidden (Some ''spam''))"
  by (simp add: telegramLogin_def telegramAuth_def loginService_def bannedStore_def bannedLogin_def
      bannedUser_def sampleStore_def sampleUser_def updateLastInteraction_def save_def Let_def)

theorem banned_login_touches_account_witness:
  "snd (telegramLogin loginService bannedStore 5000 bannedLogin) = AccountBanned (Some ''spam'')
   \<and> fst (telegramLogin loginService bannedStore 5000 bannedLogin) \<noteq> bannedStore"
  using banned_login_touches_account by blast

section \<open>The adaptive limiter\<close>

lemma trust_score_range:
  assumes "0 \<le> messageCount" and "0 \<le> commandCount" and "0 \<le> reportCount"
  shows "0 \<le> snd (calculateTrustScore this uid messageCount commandCount reportCount)"
    and "snd (calculateTrustScore this uid messageCount commandCount reportCount) \<le> 1"
    and "userScores (fst (calculateTrustScore this uid messageCount commandCount reportCount)) uid =
           Some (snd (calculateTrustScore this uid messageCount commandCount reportCount))"
proof -
  have "0 \<le> commandCount / max messageCount 1 * 0.5 + reportCount / max messageCount 1 * 2"
    using assms by simp
  then show "snd (calculateTrustScore this uid messageCount commandCount reportCount) \<le> 1"
    by (simp add: calculateTrustScore_def Let_def)
qed (simp_all add: calculateTrustScore_def Let_def)

lemma adjusted_limit_values:
  "getAdjustedLimit this uid baseLimit \<in>
     {of_int \<lfloor>baseLimit * 0.5\<rfloor>, baseLimit, of_int \<lfloor>baseLimit * 1.5\<rfloor>}"
  by (simp add: getAdjustedLimit_def Let_def)

lemma shouldBlock_iff:
  "shouldBlock this uid \<longleftrightarrow>
     (\<exists>score. userScores this uid = Some score \<and> score \<noteq> 0 \<and> score < 0.1)"
  by (auto simp: shouldBlock_def trustScoreOf_def Let_def split: option.splits)

text \<open>
  C10 at the lowest score. A user with one message and two commands gets the trust
  score 0, which is stored. The stored score is below 0.1, but \<open>shouldBlock\<close> is false:
  the stored 0 is read as a missing score, so the default 0.5 is used, and
  \<open>getAdjustedLimit\<close> returns the base limit, not the reduced one.
\<close>

theorem zero_score_is_not_blocked:
  "snd (calculateTrustScore new_AdaptiveRateLimiter 42 1 2 0) = 0
   \<and> userScores (fst (calculateTrustScore new_AdaptiveRateLimiter 42 1 2 0)) 42 = Some 0
   \<and> (0 :: real) < 0.1
   \<and> \<not> shouldBlock (fst (calculateTrustScore new_AdaptiveRateLimiter 42 1 2 0)) 42
   \<and> getAdjustedLimit (fst (calculateTrustScore new_AdaptiveRateLimiter 42 1 2 0)) 42 100 = 100"
  by (simp add: calculateTrustScore_def new_AdaptiveRateLimiter_def shouldBlock_def
      getAdjustedLimit_def trustScoreOf_def Let_def)

section \<open>The limiters\<close>

lemma check_open_window:
  assumes "storage uid = Some (c, e)" and "now < e" and "c < points limiter"
  shows "checkRateLimit limiter storage uid now = (storage(uid \<mapsto> (Suc c, e)), Allowed)"
  using assms by (simp add: checkRateLimit_def consume_def Let_def)

lemma check_fresh:
  assumes "storage uid = None" and "0 < points limiter"
  shows "checkRateLimit limiter storage uid now =
           (storage(uid \<mapsto> (1, now + int (duration limiter) * 1000)), Allowed)"
  using assms by (simp add: checkRateLimit_def consume_def Let_def)

lemma check_full_window:
  assumes "storage uid = Some (c, e)" and "now < e" and "points limiter \<le> c"
  shows "checkRateLimit limiter storage uid now =
           (storage(uid \<mapsto> (Suc c, e)), Denied (Math_round_seconds (e - now)))"
  using assms by (simp add: checkRateLimit_def consume_def Let_def)

lemma check_after_window:
  assumes "storage uid = Some (c, e)" and "e \<le> now" and "0 < points limiter"
  shows "checkRateLimit limiter storage uid now =
           (storage(uid \<mapsto> (1, now + int (duration limiter) * 1000)), Allowed)"
  using assms by (simp add: checkRateLimit_def consume_def Let_def)

lemma checks_within_window:
  assumes "storage uid = Some (c, e)" and "\<forall>t \<in> set ts. t < e" and "c + length ts \<le> points limiter"
  shows "checkRateLimits limiter storage uid ts =
           (storage(uid \<mapsto> (c + length ts, e)), replicate (length ts) Allowed)"
  using assms
proof (induction ts arbitrary: storage c)
  case Nil
  then show ?case
    by (simp add: fun_upd_idem)
next
  case (Cons t ts)
  let ?s1 = "storage(uid \<mapsto> (Suc c, e))"
  have step: "checkRateLimit limiter storage uid t = (?s1, Allowed)"
    using Cons.prems by (intro check_open_window) auto
  have rest: "checkRateLimits limiter ?s1 uid ts =
                (?s1(uid \<mapsto> (Suc c + length ts, e)), replicate (length ts) Allowed)"
    using Cons.prems by (intro Cons.IH) auto
  have "checkRateLimits limiter storage uid (t # ts) =
          (?s1(uid \<mapsto> (Suc c + length ts, e)), Allowed # replicate (length ts) Allowed)"
    by (simp add: step rest)
  also have "?s1(uid \<mapsto> (Suc c + length ts, e)) = storage(uid \<mapsto> (c + length (t # ts), e))"
    by simp
  finally show ?case
    by simp
qed

lemma burst_from_fresh:
  assumes "storage uid = None" and "\<forall>t \<in> set later. t < t0 + int (duration limiter) * 1000"
    and "Suc (length later) \<le> points limiter"
  shows "checkRateLimits limiter storage uid (t0 # later) =
           (storage(uid \<mapsto> (Suc (length later), t0 + int (duration limiter) * 1000)),
            replicate (Suc (length later)) Allowed)"
proof -
  have first: "checkRateLimit limiter storage uid t0 =
                 (storage(uid \<mapsto> (1, t0 + int (duration limiter) * 1000)), Allowed)"
    using assms by (intro check_fresh) auto
  have rest: "checkRateLimits limiter (storage(uid \<mapsto> (Suc 0, t0 + int (duration limiter) * 1000))) uid later =
          ((storage(uid \<mapsto> (Suc 0, t0 + int (duration limiter) * 1000)))
             (uid \<mapsto> (Suc 0 + length later, t0 + int (duration limiter) * 1000)),
           replicate (length later) Allowed)"
    using assms by (intro checks_within_window) auto
  show ?thesis
    by (simp add: first rest)
qed

lemma rateLimiter_as_check:
  "fst (rateLimiter limiter storage uid now) = fst (checkRateLimit limiter storage uid now)"
  "snd (rateLimiter limiter storage uid now) = Next \<longleftrightarrow>
     snd (checkRateLimit limiter storage uid now) = Allowed"
  "(\<exists>l r. snd (rateLimiter limiter storage uid now) = TooManyRequests s l r) \<longleftrightarrow>
     snd (checkRateLimit limiter storage uid now) = Denied s"
  by (auto simp: rateLimiter_def checkRateLimit_def Let_def split: prod.splits sum.splits)

lemma round_seconds:
  "0 \<le> ms \<Longrightarrow> 0 \<le> Math_round_seconds ms"
  "0 < Math_round_seconds ms \<longleftrightarrow> 500 \<le> ms"
  by (simp_all add: Math_round_seconds_def pos_imp_zdiv_pos_iff)

text \<open>
  C8, as the code has it. Take a limiter with capacity N and a window of D seconds, and
  a fresh identity whose first check is at \<open>t0\<close> (milliseconds). N checks within the
  window are all allowed. A further check at an instant \<open>t\<close> of the same window is
  denied; there are \<open>t0 + 1000 D - t\<close> milliseconds left, a positive number, and the
  hint is that number divided by 1000 and rounded to the nearest second: it is never
  negative, and it is positive exactly when at least 500 milliseconds are left. A check
  at or after the end of the window is allowed again.
\<close>

theorem limiter_window:
  "storage uid = None \<and> Suc (length later) = points limiter
   \<and> (\<forall>t \<in> set later. t0 \<le> t \<and> t < t0 + int (duration limiter) * 1000)
   \<longrightarrow>
     snd (checkRateLimits limiter storage uid (t0 # later)) = replicate (points limiter) Allowed
     \<and> (\<forall>t. t0 \<le> t \<and> t < t0 + int (duration limiter) * 1000 \<longrightarrow>
          snd (checkRateLimit limiter (fst (checkRateLimits limiter storage uid (t0 # later))) uid t) =
            Denied (Math_round_seconds (t0 + int (duration limiter) * 1000 - t))
          \<and> 0 < t0 + int (duration limiter) * 1000 - t
          \<and> 0 \<le> Math_round_seconds (t0 + int (duration limiter) * 1000 - t)
          \<and> (0 < Math_round_seconds (t0 + int (duration limiter) * 1000 - t)
               \<longleftrightarrow> 500 \<le> t0 + int (duration limiter) * 1000 - t)
          \<and> (\<forall>t'. t0 + int (duration limiter) * 1000 \<le> t' \<longrightarrow>
                snd (checkRateLimit limiter
                      (fst (checkRateLimit limiter
                             (fst (checkRateLimits limiter storage uid (t0 # later))) uid t))
                      uid t') = Allowed))
     \<and> (\<forall>t'. t0 + int (duration limiter) * 1000 \<le> t' \<longrightarrow>
          snd (checkRateLimit limiter (fst (checkRateLimits limiter storage uid (t0 # later))) uid t') =
            Allowed)"
  (is "?fresh \<and> ?full \<and> ?within \<longrightarrow> ?concl")
proof (intro impI)
  assume a: "?fresh \<and> ?full \<and> ?within"
  let ?e = "t0 + int (duration limiter) * 1000"
  let ?s = "storage(uid \<mapsto> (points limiter, ?e))"
  have run: "checkRateLimits limiter storage uid (t0 # later) = (?s, replicate (points limiter) Allowed)"
    using burst_from_fresh [of storage uid later t0 limiter] a by auto
  have pos: "0 < points limiter"
    using a by auto
  have denied: "checkRateLimit limiter ?s uid t =
      (?s(uid \<mapsto> (Suc (points limiter), ?e)), Denied (Math_round_seconds (?e - t)))"
    if "t < ?e" for t
    using that by (intro check_full_window) auto
  have again: "snd (checkRateLimit limiter ?s uid t') = Allowed" if "?e \<le> t'" for t'
    using check_after_window [of ?s uid "points limiter" ?e t' limiter] that pos by simp
  have again': "snd (checkRateLimit limiter (?s(uid \<mapsto> (Suc (points limiter), ?e))) uid t') = Allowed"
    if "?e \<le> t'" for t'
    using check_after_window [of "?s(uid \<mapsto> (Suc (points limiter), ?e))" uid
        "Suc (points limiter)" ?e t' limiter] that pos by simp
  have c1: "snd (checkRateLimits limiter storage uid (t0 # later)) = replicate (points limiter) Allowed"
    by (simp only: run snd_conv)
  have c2: "snd (checkRateLimit limiter (fst (checkRateLimits limiter storage uid (t0 # later))) uid t) =
              Denied (Math_round_seconds (?e - t))
            \<and> 0 < ?e - t
            \<and> 0 \<le> Math_round_seconds (?e - t)
            \<and> (0 < Math_round_seconds (?e - t) \<longleftrightarrow> 500 \<le> ?e - t)
            \<and> (\<forall>t'. ?e \<le> t' \<longrightarrow>
                  snd (checkRateLimit limiter
                        (fst (checkRateLimit limiter
                               (fst (checkRateLimits limiter storage uid (t0 # later))) uid t))
                        uid t') = Allowed)"
    if "t0 \<le> t \<and> t < ?e" for t
  proof -
    have lt: "t < ?e"
      using that by simp
    have d: "checkRateLimit limiter ?s uid t =
               (?s(uid \<mapsto> (Suc (points limiter), ?e)), Denied (Math_round_seconds (?e - t)))"
      using lt by (rule denied)
    have "snd (checkRateLimit limiter ?s uid t) = Denied (Math_round_seconds (?e - t))"
      by (simp only: d snd_conv)
    moreover have "0 < ?e - t"
      using lt by simp
    moreover have "0 \<le> Math_round_seconds (?e - t)"
      using lt by (intro round_seconds(1)) simp
    moreover have "0 < Math_round_seconds (?e - t) \<longleftrightarrow> 500 \<le> ?e - t"
      by (rule round_seconds(2))
    moreover have "\<forall>t'. ?e \<le> t' \<longrightarrow>
                  snd (checkRateLimit limiter (fst (checkRateLimit limiter ?s uid t)) uid t') = Allowed"
      using again' by (simp only: d fst_conv) blast
    ultimately show ?thesis
      unfolding run fst_conv by (intro conjI)
  qed
  have c3: "snd (checkRateLimit limiter (fst (checkRateLimits limiter storage uid (t0 # later))) uid t') =
              Allowed" if "?e \<le> t'" for t'
    using again [OF that] by (simp only: run fst_conv)
  from c1 c2 c3 show ?concl
    by blast
qed

lemma commandBurst_admitted:
  "checkRateLimits botLimiter freshStorage 7 commandBurst =
     (freshStorage(7 \<mapsto> (30, 60000)), replicate 30 Allowed)"
  using burst_from_fresh [of freshStorage 7 "replicate 29 0" 0 botLimiter]
  by (simp add: commandBurst_def freshStorage_def botLimiter_def)

theorem limiter_window_witness:
  "freshStorage 7 = None \<and> Suc (length (replicate 29 (0::int))) = points botLimiter
   \<and> snd (checkRateLimits botLimiter freshStorage 7 commandBurst) = replicate 30 Allowed
   \<and> snd (checkBotRateLimit (fst (checkRateLimits botLimiter freshStorage 7 commandBurst)) 7 59000) =
       Denied 1
   \<and> snd (checkBotRateLimit (fst (checkRateLimits botLimiter freshStorage 7 commandBurst)) 7 60000) =
       Allowed"
proof -
  have h: "freshStorage 7 = None \<and> Suc (length (replicate 29 (0::int))) = points botLimiter
           \<and> (\<forall>t \<in> set (replicate 29 (0::int)). 0 \<le> t \<and> t < 0 + int (duration botLimiter) * 1000)"
    by (simp add: freshStorage_def botLimiter_def)
  have d: "int (duration botLimiter) * 1000 = 60000" and p: "points botLimiter = 30"
    by (simp_all add: botLimiter_def)
  have r: "Math_round_seconds 1000 = 1"
    by (simp add: Math_round_seconds_def)
  from limiter_window [of freshStorage 7 "replicate 29 0" botLimiter 0] h
  have w: "snd (checkRateLimits botLimiter freshStorage 7 (0 # replicate 29 0)) =
             replicate (points botLimiter) Allowed"
    and "\<forall>t. 0 \<le> t \<and> t < 0 + int (duration botLimiter) * 1000 \<longrightarrow>
           snd (checkRateLimit botLimiter
                 (fst (checkRateLimits botLimiter freshStorage 7 (0 # replicate 29 0))) 7 t) =
             Denied (Math_round_seconds (0 + int (duration botLimiter) * 1000 - t))"
    and "\<forall>t'. 0 + int (duration botLimiter) * 1000 \<le> t' \<longrightarrow>
           snd (checkRateLimit botLimiter
                 (fst (checkRateLimits botLimiter freshStorage 7 (0 # replicate 29 0))) 7 t') = Allowed"
    by blast+
  then have "snd (checkRateLimit botLimiter
                 (fst (checkRateLimits botLimiter freshStorage 7 (0 # replicate 29 0))) 7 59000) =
             Denied (Math_round_seconds (60000 - 59000))"
    and "snd (checkRateLimit botLimiter
                 (fst (checkRateLimits botLimiter freshStorage 7 (0 # replicate 29 0))) 7 60000) = Allowed"
    by (simp_all add: d del: checkRateLimits.simps)
  with w h show ?thesis
    by (simp add: checkBotRateLimit_def commandBurst_def r p del: checkRateLimits.simps)
qed

text \<open>
  Thirty commands at time 0 use up the bot limiter; the command at 59.7 seconds is
  denied with 300 milliseconds left in the window, and the hint is 0 seconds.
\<close>

theorem retry_hint_zero_counterexample:
  "snd (checkRateLimits botLimiter freshStorage 7 commandBurst) = replicate 30 Allowed
   \<and> checkBotRateLimit (fst (checkRateLimits botLimiter freshStorage 7 commandBurst)) 7 59700 =
       (freshStorage(7 \<mapsto> (31, 60000)), Denied 0)"
proof -
  have "checkRateLimit botLimiter (freshStorage(7 \<mapsto> (30, 60000))) 7 59700 =
          ((freshStorage(7 \<mapsto> (30, 60000)))(7 \<mapsto> (Suc 30, 60000)),
           Denied (Math_round_seconds (60000 - 59700)))"
    by (intro check_full_window) (simp_all add: botLimiter_def)
  then show ?thesis
    by (simp add: commandBurst_admitted checkBotRateLimit_def Math_round_seconds_def)
qed

end
